theory Spec2Isabelle
  imports Complex_Main
begin

section \<open>Data model\<close>

text \<open>
  The residue categories of \<^verbatim>\<open>document.entity.ts\<close> (enum \<^verbatim>\<open>ResidueType\<close>), in the
  order of declaration.
\<close>

datatype ResidueType = GLASS | METAL | ORGANIC | PAPER | PLASTIC

text \<open>
  Modelled from the spec: the enum \<^verbatim>\<open>ProfileType\<close> of \<^verbatim>\<open>user.entity.ts\<close>, a file the
  service imports and the sources do not hold. The spec names \<^verbatim>\<open>RECYCLER\<close>,
  \<^verbatim>\<open>WASTE_GENERATOR\<close> and "at least one other non-uploading type"; every other
  member is \<open>OTHER_PROFILE\<close> with its name.
\<close>

datatype ProfileType = RECYCLER | WASTE_GENERATOR | OTHER_PROFILE string

text \<open>
  The exceptions the service can end with. \<open>NotFoundException\<close> and
  \<open>ForbiddenException\<close> carry the text of the message catalogue; \<open>StorageFailure\<close> is a
  rejected call of the storage gateway, \<open>PersistenceFailure\<close> an error of the database
  client, and \<open>TypeError\<close> is what \<^verbatim>\<open>new URL\<close> throws.
\<close>

datatype error =
  NotFoundException string
  | ForbiddenException string
  | StorageFailure
  | PersistenceFailure string
  | TypeError string

text \<open>The entries of \<^verbatim>\<open>messages.helper.ts\<close> the service uses.\<close>

definition USER_NOT_FOUND :: string where
  "USER_NOT_FOUND = ''User not found''"

definition USER_DOES_NOT_HAS_PERMISSION_TO_UPLOAD :: string where
  "USER_DOES_NOT_HAS_PERMISSION_TO_UPLOAD = ''User do not have permission to submit files''"

definition FORM_NOT_FOUND :: string where
  "FORM_NOT_FOUND = ''Form not found''"

text \<open>
  Rows of the database. A field is prefixed with its table (\<open>u_\<close>, \<open>f_\<close>, \<open>d_\<close>), since
  the tables share field names. The columns are those the service reads or writes (the
  creation timestamps are left out); JavaScript numbers (the \<^verbatim>\<open>Float\<close> of
  \<^verbatim>\<open>amount\<close>) are modelled as exact reals, so the rounding of floating-point sums is
  not part of the model.

  Modelled from the spec: the five residue quantities of a form (the database schema is
  not among the sources; the spec gives a form "five residue quantities, one float per
  category, default zero").
\<close>

record User =
  u_id :: string
  u_authUserId :: string
  u_email :: string
  u_profileType :: ProfileType

record Form =
  f_id :: string
  f_userId :: string
  f_walletAddress :: "string option"
  f_isFormAuthorizedByAdmin :: bool
  f_formMetadataUrl :: "string option"
  f_glassKgs :: real
  f_metalKgs :: real
  f_organicKgs :: real
  f_paperKgs :: real
  f_plasticKgs :: real

record Document =
  d_id :: string
  d_formId :: string
  d_residueType :: ResidueType
  d_amount :: real
  d_videoFileName :: "string option"
  d_invoicesFileName :: "string list"

text \<open>
  Modelled from the spec: the input type \<^verbatim>\<open>CreateFormInput\<close> (its file is not among the
  sources). Per the spec, beside the uploader identity and the optional wallet address it
  holds one structure for each of the five categories: an amount, an optional video file
  name and a list of invoice file names. \<open>restFormData\<close> is the rest object of the
  destructuring in \<^verbatim>\<open>createForm\<close>, keyed by category.
\<close>

record ResidueInput =
  in_amount :: real
  in_videoFileName :: "string option"
  in_invoicesFileName :: "string list"

record CreateFormInput =
  authUserId :: string
  walletAddress :: "string option"
  restFormData :: "ResidueType \<Rightarrow> ResidueInput"

text \<open>\<^verbatim>\<open>Object.entries(restFormData)\<close>: the five keys in the order of the enumeration.\<close>

definition Object_entries :: "(ResidueType \<Rightarrow> ResidueInput) \<Rightarrow> (ResidueType \<times> ResidueInput) list" where
  "Object_entries rest = map (\<lambda>r. (r, rest r)) [GLASS, METAL, ORGANIC, PAPER, PLASTIC]"

text \<open>
  The storage gateway \<^verbatim>\<open>S3Service.createPreSignedObjectUrl(fileName, residueType,
  basePath?, bucket?)\<close> and its answer \<^verbatim>\<open>{ fileName, createUrl }\<close>. The category is
  \<open>None\<close> where the service passes the empty string.
\<close>

record S3Request =
  rq_fileName :: string
  rq_residueType :: "ResidueType option"
  rq_basePath :: "string option"
  rq_bucket :: "string option"

record S3Object =
  fileName :: string
  createUrl :: string

text \<open>
  The state the service works on: the three tables, the log of the calls made to the
  storage gateway (each with its answer, \<open>None\<close> for a rejected call), and the number of
  rows created so far, from which the database draws the next identity.
\<close>

record World =
  users :: "User list"
  forms :: "Form list"
  documents :: "Document list"
  s3log :: "(S3Request \<times> S3Object option) list"
  seq :: nat

text \<open>
  The parts of a JavaScript \<^verbatim>\<open>URL\<close> object the service reads.
\<close>

record URL =
  url_origin :: string
  url_pathname :: string

text \<open>
  The collaborators whose code is outside the sources, as parameters: the storage
  gateway (its answer may depend on the number of calls made before), the identity the
  database gives to the n-th created row, \<^verbatim>\<open>getResidueTitle\<close> of \<^verbatim>\<open>src/util\<close>, and two
  builtins of JavaScript: \<^verbatim>\<open>String(number)\<close> and the parser \<^verbatim>\<open>new URL(string)\<close>, which
  is \<open>None\<close> where the builtin throws \<^verbatim>\<open>TypeError: Invalid URL\<close>.
\<close>

record Env =
  createPreSignedObjectUrl :: "nat \<Rightarrow> S3Request \<Rightarrow> S3Object option"
  uuid :: "nat \<Rightarrow> string"
  getResidueTitle :: "ResidueType \<Rightarrow> string"
  String_number :: "real \<Rightarrow> string"
  URL_new :: "string \<Rightarrow> URL option"

text \<open>
  What \<^verbatim>\<open>createForm\<close> returns: the form (\<^verbatim>\<open>form\<close>) and one record per dispatched
  category (\<^verbatim>\<open>s3\<close>).
\<close>

record S3Data =
  r_invoicesCreateUrl :: "string list"
  r_invoicesFileName :: "string list"
  r_videoCreateUrl :: string
  r_videoFileName :: "string option"
  r_residue :: ResidueType

record CreateFormResponse =
  resp_form :: Form
  resp_s3 :: "S3Data list"

section \<open>Collaborators\<close>

text \<open>JavaScript truthiness of an optional string: present and not empty.\<close>

definition truthy :: "string option \<Rightarrow> bool" where
  "truthy v = (case v of None \<Rightarrow> False | Some s \<Rightarrow> s \<noteq> [])"

text \<open>
  Modelled from the spec: \<^verbatim>\<open>UsersService.findUserByAuthUserId\<close> and
  \<^verbatim>\<open>findUserByUserId\<close> resolve a user by external or internal identity and fail with
  \<open>NotFound\<close> when there is none.
\<close>

definition findUserByAuthUserId :: "string \<Rightarrow> World \<Rightarrow> error + User" where
  "findUserByAuthUserId a w =
     (case find (\<lambda>u. u_authUserId u = a) (users w) of
        None \<Rightarrow> Inl (NotFoundException USER_NOT_FOUND)
      | Some u \<Rightarrow> Inr u)"

definition findUserByUserId :: "string \<Rightarrow> World \<Rightarrow> error + User" where
  "findUserByUserId i w =
     (case find (\<lambda>u. u_id u = i) (users w) of
        None \<Rightarrow> Inl (NotFoundException USER_NOT_FOUND)
      | Some u \<Rightarrow> Inr u)"

text \<open>
  Modelled from the spec: \<^verbatim>\<open>DocumentsService.listDocumentsFromForm\<close> lists the documents
  of a form.
\<close>

definition listDocumentsFromForm :: "string \<Rightarrow> World \<Rightarrow> Document list" where
  "listDocumentsFromForm i w = filter (\<lambda>d. d_formId d = i) (documents w)"

text \<open>
  The arguments of the two-argument call \<^verbatim>\<open>createPreSignedObjectUrl(name, residueType)\<close>
  of \<^verbatim>\<open>createForm\<close>: no base path, no bucket.
\<close>

definition residue_request :: "string \<Rightarrow> ResidueType \<Rightarrow> S3Request" where
  "residue_request name r =
     \<lparr>rq_fileName = name, rq_residueType = Some r, rq_basePath = None, rq_bucket = None\<rparr>"

text \<open>One call of the storage gateway: the answer, and the call appended to the log.\<close>

definition s3_call :: "Env \<Rightarrow> S3Request \<Rightarrow> World \<Rightarrow> S3Object option \<times> World" where
  "s3_call env rq w =
     (let ans = createPreSignedObjectUrl env (length (s3log w)) rq
      in (ans, w\<lparr>s3log := s3log w @ [(rq, ans)]\<rparr>))"

text \<open>
  \<^verbatim>\<open>Promise.all(names.map(call))\<close>: \<^verbatim>\<open>map\<close> starts every call, in the order of the
  list; the answers come back in that order.
\<close>

fun s3_call_all :: "Env \<Rightarrow> S3Request list \<Rightarrow> World \<Rightarrow> S3Object option list \<times> World" where
  "s3_call_all env [] w = ([], w)"
| "s3_call_all env (rq # rqs) w =
     (case s3_call env rq w of
        (a, w1) \<Rightarrow> (case s3_call_all env rqs w1 of (as, w2) \<Rightarrow> (a # as, w2)))"

text \<open>\<^verbatim>\<open>Promise.all\<close> rejects as soon as one of the promises does.\<close>

fun Promise_all :: "'a option list \<Rightarrow> error + 'a list" where
  "Promise_all [] = Inr []"
| "Promise_all (None # xs) = Inl StorageFailure"
| "Promise_all (Some x # xs) =
     (case Promise_all xs of Inl e \<Rightarrow> Inl e | Inr ys \<Rightarrow> Inr (x # ys))"

text \<open>
  \<^verbatim>\<open>prisma.form.create\<close> with \<^verbatim>\<open>userId\<close> and \<^verbatim>\<open>walletAddress\<close>: the other columns take
  their defaults (not authorized, no metadata URL, quantities zero).
\<close>

definition form_create :: "Env \<Rightarrow> string \<Rightarrow> string option \<Rightarrow> World \<Rightarrow> Form \<times> World" where
  "form_create env uid wallet w =
     (let f = \<lparr>f_id = uuid env (seq w), f_userId = uid, f_walletAddress = wallet,
                f_isFormAuthorizedByAdmin = False, f_formMetadataUrl = None,
                f_glassKgs = 0, f_metalKgs = 0, f_organicKgs = 0, f_paperKgs = 0,
                f_plasticKgs = 0\<rparr>
      in (f, w\<lparr>forms := forms w @ [f], seq := Suc (seq w)\<rparr>))"

text \<open>\<^verbatim>\<open>prisma.document.create\<close>: the row as given, with a new identity.\<close>

definition document_create ::
  "Env \<Rightarrow> string \<Rightarrow> ResidueType \<Rightarrow> string list \<Rightarrow> real \<Rightarrow> string option \<Rightarrow> World \<Rightarrow> Document \<times> World" where
  "document_create env fid r invoices amount video w =
     (let d = \<lparr>d_id = uuid env (seq w), d_formId = fid, d_residueType = r, d_amount = amount,
                d_videoFileName = video, d_invoicesFileName = invoices\<rparr>
      in (d, w\<lparr>documents := documents w @ [d], seq := Suc (seq w)\<rparr>))"

text \<open>
  \<^verbatim>\<open>prisma.form.update({ where: { id }, data })\<close>: the row with that identity (the first,
  identities being unique in the table) is replaced and returned; the client throws when
  there is none.
\<close>

fun update_first :: "string \<Rightarrow> (Form \<Rightarrow> Form) \<Rightarrow> Form list \<Rightarrow> (Form \<times> Form list) option" where
  "update_first i g [] = None"
| "update_first i g (f # fs) =
     (if f_id f = i then Some (g f, g f # fs)
      else (case update_first i g fs of
              None \<Rightarrow> None
            | Some (f', fs') \<Rightarrow> Some (f', f # fs')))"

definition form_update :: "string \<Rightarrow> (Form \<Rightarrow> Form) \<Rightarrow> World \<Rightarrow> (error + Form) \<times> World" where
  "form_update i g w =
     (case update_first i g (forms w) of
        None \<Rightarrow> (Inl (PersistenceFailure ''Record to update not found.''), w)
      | Some (f', fs') \<Rightarrow> (Inr f', w\<lparr>forms := fs'\<rparr>))"

section \<open>FormsService\<close>

subsection \<open>findByFormId\<close>

definition findByFormId :: "string \<Rightarrow> World \<Rightarrow> error + Form" where
  "findByFormId i w =
     (case find (\<lambda>f. f_id f = i) (forms w) of
        None \<Rightarrow> Inl (NotFoundException FORM_NOT_FOUND)
      | Some f \<Rightarrow> Inr f)"

subsection \<open>createForm\<close>

text \<open>
  \<^verbatim>\<open>Object.entries(restFormData).some(([, p]) => p?.videoFileName || p.invoicesFileName.length)\<close>
\<close>

definition hasUploadedVideoOrInvoice :: "(ResidueType \<times> ResidueInput) list \<Rightarrow> bool" where
  "hasUploadedVideoOrInvoice entries =
     list_ex (\<lambda>(residueType, residueProps).
        truthy (in_videoFileName residueProps) \<or> length (in_invoicesFileName residueProps) \<noteq> 0) entries"

text \<open>
  The body of the reducer for one entry: the video URL when a video name is given, then
  the invoice URLs when the list is not empty, then the document row, then the record of
  the response. A rejected gateway call ends the submission there, after the call.
\<close>

definition createForm_reducer ::
  "Env \<Rightarrow> string \<Rightarrow> ResidueType \<times> ResidueInput \<Rightarrow> World \<Rightarrow> (error + S3Data) \<times> World" where
  "createForm_reducer env formId entry w =
     (case entry of (residueType, residueProps) \<Rightarrow>
       (case (if truthy (in_videoFileName residueProps)
              then (case s3_call env
                           (residue_request (the (in_videoFileName residueProps)) residueType) w of
                      (None, w1) \<Rightarrow> (Inl StorageFailure, w1)
                    | (Some obj, w1) \<Rightarrow> (Inr (createUrl obj, Some (fileName obj)), w1))
              else (Inr ([], None), w)) of
          (Inl e, w1) \<Rightarrow> (Inl e, w1)
        | (Inr (s3CreateVideoFileName, videoFileName), w1) \<Rightarrow>
           (case (if length (in_invoicesFileName residueProps) \<noteq> 0
                  then (case s3_call_all env
                               (map (\<lambda>invoiceFile. residue_request invoiceFile residueType)
                                    (in_invoicesFileName residueProps)) w1 of
                          (answers, w2) \<Rightarrow>
                            (case Promise_all answers of
                               Inl e \<Rightarrow> (Inl e, w2)
                             | Inr invoicesS3Response \<Rightarrow>
                                 (Inr (map createUrl invoicesS3Response,
                                       map fileName invoicesS3Response), w2)))
                  else (Inr ([], []), w1)) of
              (Inl e, w2) \<Rightarrow> (Inl e, w2)
            | (Inr (s3CreateInvoiceFileName, invoicesFileName), w2) \<Rightarrow>
               (case document_create env formId residueType invoicesFileName
                       (in_amount residueProps) videoFileName w2 of
                  (residueDocument, w3) \<Rightarrow>
                    (Inr \<lparr>r_invoicesCreateUrl = s3CreateInvoiceFileName,
                          r_invoicesFileName = d_invoicesFileName residueDocument,
                          r_videoCreateUrl = s3CreateVideoFileName,
                          r_videoFileName = d_videoFileName residueDocument,
                          r_residue = residueType\<rparr>, w3)))))"

text \<open>
  The \<^verbatim>\<open>reduce\<close> over the entries: each step awaits the accumulator of the step before,
  so the entries are handled one after the other and a failure ends the chain.
\<close>

fun createForm_reduce ::
  "Env \<Rightarrow> string \<Rightarrow> (ResidueType \<times> ResidueInput) list \<Rightarrow> S3Data list \<Rightarrow> World
     \<Rightarrow> (error + S3Data list) \<times> World" where
  "createForm_reduce env formId [] allDocuments w = (Inr allDocuments, w)"
| "createForm_reduce env formId (entry # entries) allDocuments w =
     (case createForm_reducer env formId entry w of
        (Inl e, w1) \<Rightarrow> (Inl e, w1)
      | (Inr item, w1) \<Rightarrow> createForm_reduce env formId entries (allDocuments @ [item]) w1)"

definition createForm :: "Env \<Rightarrow> CreateFormInput \<Rightarrow> World \<Rightarrow> (error + CreateFormResponse) \<times> World" where
  "createForm env input w =
     (case findUserByAuthUserId (authUserId input) w of
        Inl e \<Rightarrow> (Inl e, w)
      | Inr user \<Rightarrow>
         (let hasEvidence = hasUploadedVideoOrInvoice (Object_entries (restFormData input))
          in if u_profileType user \<noteq> RECYCLER \<and> u_profileType user \<noteq> WASTE_GENERATOR
                \<and> hasEvidence
             then (Inl (ForbiddenException USER_DOES_NOT_HAS_PERMISSION_TO_UPLOAD), w)
             else (case form_create env (u_id user) (walletAddress input) w of
                     (newForm, w1) \<Rightarrow>
                       if hasEvidence
                       then (case createForm_reduce env (f_id newForm)
                                     (Object_entries (restFormData input)) [] w1 of
                               (Inl e, w2) \<Rightarrow> (Inl e, w2)
                             | (Inr s3Data, w2) \<Rightarrow> (Inr \<lparr>resp_form = newForm, resp_s3 = s3Data\<rparr>, w2))
                       else (Inr \<lparr>resp_form = newForm, resp_s3 = []\<rparr>, w1))))"

subsection \<open>aggregateFormByUserProfile\<close>

text \<open>
  \<^verbatim>\<open>prisma.form.findMany({ where: { user: { is: { profileType } } } })\<close>: the forms whose
  user has the profile type.
\<close>

definition form_findMany_profileType :: "ProfileType \<Rightarrow> World \<Rightarrow> Form list" where
  "form_findMany_profileType p w =
     filter (\<lambda>f. list_ex (\<lambda>u. u_id u = f_userId f \<and> u_profileType u = p) (users w)) (forms w)"

text \<open>
  \<^verbatim>\<open>prisma.document.aggregate({ _sum: { amount: true }, where: { OR: [{ formId }, ...] } })\<close>:
  the rows that match one of the alternatives (none when the list is empty);
  \<^verbatim>\<open>_sum.amount\<close> is \<^verbatim>\<open>null\<close> when no row matches.
\<close>

definition document_aggregate_sum_amount :: "string list \<Rightarrow> World \<Rightarrow> real option" where
  "document_aggregate_sum_amount formIds w =
     (let rows = filter (\<lambda>d. list_ex (\<lambda>i. d_formId d = i) formIds) (documents w)
      in if rows = [] then None else Some (sum_list (map d_amount rows)))"

text \<open>\<^verbatim>\<open>x || 0\<close> on a nullable number: \<^verbatim>\<open>null\<close> and \<^verbatim>\<open>0\<close> are falsy.\<close>

definition or_zero :: "real option \<Rightarrow> real" where
  "or_zero v = (case v of None \<Rightarrow> 0 | Some x \<Rightarrow> if x = 0 then 0 else x)"

record AggregateFormByUserProfileResponse =
  a_id :: ProfileType
  a_data :: real

definition aggregateFormByUserProfile :: "World \<Rightarrow> AggregateFormByUserProfileResponse list" where
  "aggregateFormByUserProfile w =
     (let allFormsByRecyclers = form_findMany_profileType RECYCLER w;
          allFormsByWasteGenerators = form_findMany_profileType WASTE_GENERATOR w;
          aggregateRecyclerData =
            document_aggregate_sum_amount (map f_id allFormsByRecyclers) w;
          aggregateWasteGenData =
            document_aggregate_sum_amount (map f_id allFormsByWasteGenerators) w
      in [\<lparr>a_id = RECYCLER, a_data = or_zero aggregateRecyclerData\<rparr>,
          \<lparr>a_id = WASTE_GENERATOR, a_data = or_zero aggregateWasteGenData\<rparr>])"

subsection \<open>authorizeForm\<close>

definition authorizeForm :: "string \<Rightarrow> bool \<Rightarrow> World \<Rightarrow> (error + Form) \<times> World" where
  "authorizeForm formId isFormAuthorized w =
     (case findByFormId formId w of
        Inl e \<Rightarrow> (Inl e, w)
      | Inr form \<Rightarrow>
          form_update (f_id form) (\<lambda>f. f\<lparr>f_isFormAuthorizedByAdmin := isFormAuthorized\<rparr>) w)"

subsection \<open>createOnPublicObject, submitFormImage\<close>

definition createOnPublicObject :: "Env \<Rightarrow> string \<Rightarrow> string \<Rightarrow> World \<Rightarrow> (error + string) \<times> World" where
  "createOnPublicObject env name basePath w =
     (let publicBucket = ''detrash-public''
      in case s3_call env \<lparr>rq_fileName = name, rq_residueType = None,
                            rq_basePath = Some basePath, rq_bucket = Some publicBucket\<rparr> w of
           (None, w1) \<Rightarrow> (Inl StorageFailure, w1)
         | (Some createPublicUrl, w1) \<Rightarrow> (Inr (createUrl createPublicUrl), w1))"

definition submitFormImage :: "Env \<Rightarrow> string \<Rightarrow> World \<Rightarrow> (error + string) \<times> World" where
  "submitFormImage env formId w =
     (case findByFormId formId w of
        Inl e \<Rightarrow> (Inl e, w)
      | Inr form \<Rightarrow> createOnPublicObject env (f_id form @ ''.png'') ''images'' w)"

subsection \<open>createFormMetadata\<close>

text \<open>
  One attribute of the metadata, the metadata object, and the result. \<open>body\<close> is the
  object handed to \<^verbatim>\<open>JSON.stringify(JsonMetadata, null, 2)\<close>: the text is a rendering of
  it, and the model keeps the object.
\<close>

record Attribute =
  trait_type :: string
  trait_value :: string

record JsonMetadata =
  m_attributes :: "Attribute list"
  m_description :: string
  m_image :: string
  m_name :: string

record CreateFormMetadataResponse =
  createMetadataUrl :: string
  body :: JsonMetadata

definition createFormMetadata ::
  "Env \<Rightarrow> string \<Rightarrow> World \<Rightarrow> (error + CreateFormMetadataResponse) \<times> World" where
  "createFormMetadata env formId w =
     (case findByFormId formId w of
        Inl e \<Rightarrow> (Inl e, w)
      | Inr form \<Rightarrow>
     (case findUserByUserId (f_userId form) w of
        Inl e \<Rightarrow> (Inl e, w)
      | Inr user \<Rightarrow>
     (let docs = listDocumentsFromForm formId w;
          residueAttributes =
            foldl (\<lambda>allAtributes residueDocument.
                     allAtributes @
                       [\<lparr>trait_type = getResidueTitle env (d_residueType residueDocument) @ '' kgs'',
                         trait_value = String_number env (d_amount residueDocument)\<rparr>])
              [\<lparr>trait_type = ''Originating wallet'',
                 trait_value = (if truthy (f_walletAddress form)
                                then the (f_walletAddress form) else ''0x0'')\<rparr>,
               \<lparr>trait_type = ''Audit'',
                 trait_value = (if f_isFormAuthorizedByAdmin form
                                then ''Verified'' else ''Not Verified'')\<rparr>]
              docs
      in case createOnPublicObject env (f_id form @ ''.json'') ''metadata'' w of
           (Inl e, w1) \<Rightarrow> (Inl e, w1)
         | (Inr metadataUrl, w1) \<Rightarrow>
     (case URL_new env metadataUrl of
        None \<Rightarrow> (Inl (TypeError ''Invalid URL''), w1)
      | Some objectUrl \<Rightarrow>
     (let jsonMetadata =
            \<lparr>m_attributes = residueAttributes,
              m_description = ''RECY Report'',
              m_image = url_origin objectUrl @ ''/images/'' @ f_id form @ ''.png'',
              m_name = u_email user\<rparr>;
          formMetadataUrl = url_origin objectUrl @ url_pathname objectUrl
      in case form_update formId (\<lambda>f. f\<lparr>f_formMetadataUrl := Some formMetadataUrl\<rparr>) w1 of
           (Inl e, w2) \<Rightarrow> (Inl e, w2)
         | (Inr updated, w2) \<Rightarrow>
             (Inr \<lparr>createMetadataUrl = metadataUrl, body = jsonMetadata\<rparr>, w2))))))"

section \<open>Notions used to state the properties\<close>


text \<open>
  The aggregate as the specification words it: the sum of the amounts of the documents
  whose form belongs to a user of the profile type.
\<close>

definition belongs_to_profile :: "World \<Rightarrow> ProfileType \<Rightarrow> Document \<Rightarrow> bool" where
  "belongs_to_profile w p d =
     (\<exists>f \<in> set (forms w). f_id f = d_formId d \<and>
        (\<exists>u \<in> set (users w). u_id u = f_userId f \<and> u_profileType u = p))"

definition spec_aggregate :: "World \<Rightarrow> ProfileType \<Rightarrow> real" where
  "spec_aggregate w p = sum_list (map d_amount (filter (belongs_to_profile w p) (documents w)))"

text \<open>
  What the JavaScript parser guarantees of the URLs it returns, by the URL standard: neither
  the origin (scheme, host and port) nor the pathname holds a question mark, since the
  path of a URL ends where its query begins.
\<close>

definition URL_without_query :: "Env \<Rightarrow> bool" where
  "URL_without_query env =
     (\<forall>s u. URL_new env s = Some u \<longrightarrow>
        CHR ''?'' \<notin> set (url_origin u) \<and> CHR ''?'' \<notin> set (url_pathname u))"

section \<open>Concrete collaborators and states for the examples\<close>

text \<open>
  A gateway that prefixes the n-th call's file name with a key and signs the URL with a
  query string; identities \<open>id\<close>, \<open>idx\<close>, \<open>idxx\<close>, ...; the URL parser at the one
  address the examples parse, with the origin and pathname the builtin gives there.
\<close>

definition env0 :: Env where
  "env0 = \<lparr>createPreSignedObjectUrl =
             (\<lambda>n rq. Some \<lparr>fileName = ''key-'' @ rq_fileName rq,
                            createUrl = ''https://s3.test/'' @ rq_fileName rq @ ''?sig=1''\<rparr>),
           uuid = (\<lambda>n. ''id'' @ replicate n (CHR ''x'')),
           getResidueTitle = (\<lambda>r. case r of GLASS \<Rightarrow> ''Glass'' | METAL \<Rightarrow> ''Metal''
                                 | ORGANIC \<Rightarrow> ''Organic'' | PAPER \<Rightarrow> ''Paper''
                                 | PLASTIC \<Rightarrow> ''Plastic''),
           String_number = (\<lambda>x. if x = 10 then ''10'' else if x = 5 / 2 then ''2.5''
                                 else if x = 0 then ''0'' else ''?''),
           URL_new = (\<lambda>s. if s = ''https://s3.test/id.json?sig=1''
                           then Some \<lparr>url_origin = ''https://s3.test'',
                                      url_pathname = ''/id.json''\<rparr>
                           else None)\<rparr>"

definition no_residue :: ResidueInput where
  "no_residue = \<lparr>in_amount = 0, in_videoFileName = None, in_invoicesFileName = []\<rparr>"

definition alice :: User where
  "alice = \<lparr>u_id = ''u1'', u_authUserId = ''auth|alice'', u_email = ''alice@test'',
            u_profileType = RECYCLER\<rparr>"

definition bob :: User where
  "bob = \<lparr>u_id = ''u2'', u_authUserId = ''auth|bob'', u_email = ''bob@test'',
          u_profileType = OTHER_PROFILE ''HODLER''\<rparr>"

definition world0 :: World where
  "world0 = \<lparr>users = [alice, bob], forms = [], documents = [], s3log = [], seq = 0\<rparr>"

text \<open>Submissions: quantities only; one invoice for PLASTIC; a video and two invoices for PAPER.\<close>

definition quantity_only :: "string \<Rightarrow> CreateFormInput" where
  "quantity_only a =
     \<lparr>authUserId = a, walletAddress = None,
      restFormData = (\<lambda>r. no_residue)
        (GLASS := \<lparr>in_amount = 3, in_videoFileName = None, in_invoicesFileName = []\<rparr>)\<rparr>"

definition plastic_invoice :: "string \<Rightarrow> CreateFormInput" where
  "plastic_invoice a =
     \<lparr>authUserId = a, walletAddress = Some ''0xabc'',
      restFormData = (\<lambda>r. no_residue)
        (PLASTIC := \<lparr>in_amount = 10, in_videoFileName = None,
                     in_invoicesFileName = [''invoice1.pdf'']\<rparr>)\<rparr>"


text \<open>
  A submission with a negative amount; the rows and records of a category without
  evidence in the examples.
\<close>

definition negative_glass :: "string \<Rightarrow> CreateFormInput" where
  "negative_glass a =
     \<lparr>authUserId = a, walletAddress = None,
      restFormData = (\<lambda>r. no_residue)
        (GLASS := \<lparr>in_amount = - 1, in_videoFileName = Some ''v.mp4'',
                   in_invoicesFileName = []\<rparr>)\<rparr>"

definition doc0 :: "nat \<Rightarrow> ResidueType \<Rightarrow> Document" where
  "doc0 n r = \<lparr>d_id = ''id'' @ replicate n (CHR ''x''), d_formId = ''id'', d_residueType = r,
       d_amount = 0, d_videoFileName = None, d_invoicesFileName = []\<rparr>"

definition item0 :: "ResidueType \<Rightarrow> S3Data" where
  "item0 r = \<lparr>r_invoicesCreateUrl = [], r_invoicesFileName = [], r_videoCreateUrl = [],
       r_videoFileName = None, r_residue = r\<rparr>"

definition form0 :: "string \<Rightarrow> string option \<Rightarrow> Form" where
  "form0 uid wallet = \<lparr>f_id = ''id'', f_userId = uid, f_walletAddress = wallet,
       f_isFormAuthorizedByAdmin = False, f_formMetadataUrl = None,
       f_glassKgs = 0, f_metalKgs = 0, f_organicKgs = 0, f_paperKgs = 0, f_plasticKgs = 0\<rparr>"

definition s3obj0 :: "string \<Rightarrow> S3Object" where
  "s3obj0 name = \<lparr>fileName = ''key-'' @ name, createUrl = ''https://s3.test/'' @ name @ ''?sig=1''\<rparr>"

text \<open>
  A state with two forms: one of a recycler with two documents (10 and 2.5), one of a user
  of another profile type with one document.
\<close>

definition world_agg :: World where
  "world_agg =
     \<lparr>users = [alice, bob],
      forms = [form0 ''u1'' None, (form0 ''u2'' None)\<lparr>f_id := ''id2''\<rparr>],
      documents = [(doc0 1 GLASS)\<lparr>d_amount := 10\<rparr>, (doc0 2 PAPER)\<lparr>d_amount := 5 / 2\<rparr>,
                   (doc0 3 METAL)\<lparr>d_formId := ''id2'', d_amount := 7\<rparr>],
      s3log = [], seq = 5\<rparr>"

text \<open>The metadata published for the first form in that state.\<close>

definition metadata_example :: CreateFormMetadataResponse where
  "metadata_example =
     \<lparr>createMetadataUrl = ''https://s3.test/id.json?sig=1'',
      body =
        \<lparr>m_attributes =
           [\<lparr>trait_type = ''Originating wallet'', trait_value = ''0x0''\<rparr>,
            \<lparr>trait_type = ''Audit'', trait_value = ''Not Verified''\<rparr>,
            \<lparr>trait_type = ''Glass kgs'', trait_value = ''10''\<rparr>,
            \<lparr>trait_type = ''Paper kgs'', trait_value = ''2.5''\<rparr>],
         m_description = ''RECY Report'',
         m_image = ''https://s3.test/images/id.png'',
         m_name = ''alice@test''\<rparr>\<rparr>"

section \<open>Auxiliary facts: the dispatch of one category and of all\<close>

lemma truthy_iff: "truthy v \<longleftrightarrow> (\<exists>s. v = Some s \<and> s \<noteq> [])"
  by (cases v) (simp_all add: truthy_def)

lemma s3_call_all_log:
  "s3_call_all env rqs w = (as, w') \<Longrightarrow>
     w' = w\<lparr>s3log := s3log w @ zip rqs as\<rparr> \<and> length as = length rqs"
proof (induction rqs arbitrary: w as w')
  case Nil
  then show ?case by simp
next
  case (Cons rq rqs)
  obtain a w1 where c: "s3_call env rq w = (a, w1)" by (cases "s3_call env rq w")
  obtain bs w2 where r: "s3_call_all env rqs w1 = (bs, w2)" by (cases "s3_call_all env rqs w1")
  from Cons.prems c r have e: "as = a # bs" "w' = w2" by simp_all
  from c have w1: "w1 = w\<lparr>s3log := s3log w @ [(rq, a)]\<rparr>"
    by (auto simp: s3_call_def Let_def)
  from Cons.IH [OF r] have "w2 = w1\<lparr>s3log := s3log w1 @ zip rqs bs\<rparr>" "length bs = length rqs"
    by simp_all
  with e w1 show ?case by simp
qed

lemma Promise_all_Inr: "Promise_all xs = Inr ys \<Longrightarrow> xs = map Some ys"
proof (induction xs arbitrary: ys)
  case Nil
  then show ?case by simp
next
  case (Cons x xs)
  then show ?case by (cases x) (auto split: sum.splits)
qed

lemma createForm_reducer_Inr:
  assumes "createForm_reducer env fid (r, p) w = (Inr item, w')"
  shows "\<exists>vo answers.
      (vo = None \<longleftrightarrow> \<not> truthy (in_videoFileName p)) \<and>
      length answers = length (in_invoicesFileName p) \<and>
      w' = w\<lparr>s3log := s3log w
                 @ (case vo of None \<Rightarrow> []
                    | Some v \<Rightarrow> [(residue_request (the (in_videoFileName p)) r, Some v)])
                 @ zip (map (\<lambda>n. residue_request n r) (in_invoicesFileName p)) (map Some answers),
              documents := documents w @
                 [\<lparr>d_id = uuid env (seq w), d_formId = fid, d_residueType = r,
                   d_amount = in_amount p, d_videoFileName = map_option fileName vo,
                   d_invoicesFileName = map fileName answers\<rparr>],
              seq := Suc (seq w)\<rparr> \<and>
      item = \<lparr>r_invoicesCreateUrl = map createUrl answers,
               r_invoicesFileName = map fileName answers,
               r_videoCreateUrl = (case vo of None \<Rightarrow> [] | Some v \<Rightarrow> createUrl v),
               r_videoFileName = map_option fileName vo,
               r_residue = r\<rparr>"
proof -
  let ?names = "in_invoicesFileName p"
  let ?rqs = "map (\<lambda>n. residue_request n r) ?names"
  obtain vo w1 where
    v: "vo = None \<longleftrightarrow> \<not> truthy (in_videoFileName p)"
       "w1 = w\<lparr>s3log := s3log w @ (case vo of None \<Rightarrow> []
                 | Some v \<Rightarrow> [(residue_request (the (in_videoFileName p)) r, Some v)])\<rparr>"
       "(if truthy (in_videoFileName p)
         then (case s3_call env (residue_request (the (in_videoFileName p)) r) w of
                 (None, w1) \<Rightarrow> (Inl StorageFailure, w1)
               | (Some obj, w1) \<Rightarrow> (Inr (createUrl obj, Some (fileName obj)), w1))
         else (Inr ([], None), w))
        = (Inr (case vo of None \<Rightarrow> [] | Some v \<Rightarrow> createUrl v, map_option fileName vo), w1)"
  proof (cases "truthy (in_videoFileName p)")
    case False
    show ?thesis by (rule that [of None w]) (simp_all add: False)
  next
    case True
    obtain a w1 where c: "s3_call env (residue_request (the (in_videoFileName p)) r) w = (a, w1)"
      by (cases "s3_call env (residue_request (the (in_videoFileName p)) r) w")
    from assms True c obtain obj where a: "a = Some obj"
      by (cases a) (simp_all add: createForm_reducer_def)
    from c a have "w1 = w\<lparr>s3log := s3log w @ [(residue_request (the (in_videoFileName p)) r, Some obj)]\<rparr>"
      by (auto simp: s3_call_def Let_def)
    then show ?thesis using True c a by (intro that [of "Some obj" w1]) simp_all
  qed
  obtain answers w2 where
    i: "length answers = length ?names"
       "w2 = w1\<lparr>s3log := s3log w1 @ zip ?rqs (map Some answers)\<rparr>"
       "(if length ?names \<noteq> 0
         then (case s3_call_all env ?rqs w1 of
                 (answers, w2) \<Rightarrow>
                   (case Promise_all answers of
                      Inl e \<Rightarrow> (Inl e, w2)
                    | Inr invoicesS3Response \<Rightarrow>
                        (Inr (map createUrl invoicesS3Response,
                              map fileName invoicesS3Response), w2)))
         else (Inr ([], []), w1))
        = (Inr (map createUrl answers, map fileName answers), w2)"
  proof (cases "?names = []")
    case True
    show ?thesis by (rule that [of "[]" w1]) (simp_all add: True)
  next
    case False
    obtain as w2 where c: "s3_call_all env ?rqs w1 = (as, w2)"
      by (cases "s3_call_all env ?rqs w1")
    from assms v(3) False c obtain answers where p: "Promise_all as = Inr answers"
      by (cases "Promise_all as") (simp_all add: createForm_reducer_def)
    from s3_call_all_log [OF c] Promise_all_Inr [OF p]
    have "w2 = w1\<lparr>s3log := s3log w1 @ zip ?rqs (map Some answers)\<rparr>" "length answers = length ?names"
      by auto
    then show ?thesis using False c p by (intro that [of answers w2]) simp_all
  qed
  from assms v(3) i(3)
  have "w' = w2\<lparr>documents := documents w2 @
                 [\<lparr>d_id = uuid env (seq w2), d_formId = fid, d_residueType = r,
                   d_amount = in_amount p, d_videoFileName = map_option fileName vo,
                   d_invoicesFileName = map fileName answers\<rparr>],
              seq := Suc (seq w2)\<rparr>"
    and "item = \<lparr>r_invoicesCreateUrl = map createUrl answers,
               r_invoicesFileName = map fileName answers,
               r_videoCreateUrl = (case vo of None \<Rightarrow> [] | Some v \<Rightarrow> createUrl v),
               r_videoFileName = map_option fileName vo,
               r_residue = r\<rparr>"
    by (auto simp: createForm_reducer_def document_create_def Let_def)
  with v(1,2) i(1,2) show ?thesis
    by (intro exI [of _ vo] exI [of _ answers]) simp
qed


lemma Promise_all_Inl: "Promise_all xs = Inl e \<Longrightarrow> e = StorageFailure"
proof (induction xs)
  case Nil
  then show ?case by simp
next
  case (Cons x xs)
  then show ?case by (cases x) (auto split: sum.splits)
qed

lemma createForm_reducer_Inl:
  assumes "createForm_reducer env fid (r, p) w = (Inl e, w')"
  shows "documents w' = documents w \<and> forms w' = forms w \<and> users w' = users w
         \<and> e = StorageFailure"
  using assms
  by (auto simp: createForm_reducer_def s3_call_def Let_def document_create_def
       split: if_splits prod.splits sum.splits option.splits
       dest!: s3_call_all_log Promise_all_Inl)


lemma createForm_reduce_documents:
  "createForm_reduce env fid es acc w = (res, w') \<Longrightarrow>
     \<exists>ds. documents w' = documents w @ ds \<and> length ds \<le> length es \<and>
       users w' = users w \<and> forms w' = forms w \<and>
       (\<forall>i<length ds. d_formId (ds ! i) = fid \<and> d_residueType (ds ! i) = fst (es ! i)
            \<and> d_amount (ds ! i) = in_amount (snd (es ! i)))"
proof (induction es arbitrary: acc w)
  case Nil
  then show ?case by simp
next
  case (Cons e es)
  obtain r p where e: "e = (r, p)" by (cases e)
  obtain res1 w1 where c: "createForm_reducer env fid (r, p) w = (res1, w1)"
    by (cases "createForm_reducer env fid (r, p) w")
  show ?case
  proof (cases res1)
    case (Inl err)
    with Cons.prems e c have "w' = w1" by simp
    with createForm_reducer_Inl [OF c [unfolded Inl]] show ?thesis by simp
  next
    case (Inr item)
    with Cons.prems e c have rest: "createForm_reduce env fid es (acc @ [item]) w1 = (res, w')"
      by simp
    from createForm_reducer_Inr [OF c [unfolded Inr]]
    obtain d where d: "documents w1 = documents w @ [d]" "users w1 = users w" "forms w1 = forms w"
       "d_formId d = fid" "d_residueType d = r" "d_amount d = in_amount p"
      by auto
    from Cons.IH [OF rest] obtain ds where
      ih: "documents w' = documents w1 @ ds" "length ds \<le> length es"
        "users w' = users w1" "forms w' = forms w1"
        "\<forall>i<length ds. d_formId (ds ! i) = fid \<and> d_residueType (ds ! i) = fst (es ! i)
            \<and> d_amount (ds ! i) = in_amount (snd (es ! i))"
      by blast
    have "\<forall>i<length (d # ds). d_formId ((d # ds) ! i) = fid
            \<and> d_residueType ((d # ds) ! i) = fst ((e # es) ! i)
            \<and> d_amount ((d # ds) ! i) = in_amount (snd ((e # es) ! i))"
    proof (intro allI impI)
      fix i assume "i < length (d # ds)"
      then show "d_formId ((d # ds) ! i) = fid
            \<and> d_residueType ((d # ds) ! i) = fst ((e # es) ! i)
            \<and> d_amount ((d # ds) ! i) = in_amount (snd ((e # es) ! i))"
        using d(4-6) ih(5) e by (cases i) simp_all
    qed
    with ih d show ?thesis
      by (intro exI [of _ "d # ds"]) simp
  qed
qed

lemma createForm_reduce_Inl:
  "createForm_reduce env fid es acc w = (Inl e, w') \<Longrightarrow> e = StorageFailure"
proof (induction es arbitrary: acc w)
  case Nil
  then show ?case by simp
next
  case (Cons x es)
  obtain r p where x: "x = (r, p)" by (cases x)
  obtain res w1 where c: "createForm_reducer env fid (r, p) w = (res, w1)"
    by (cases "createForm_reducer env fid (r, p) w")
  show ?case
  proof (cases res)
    case (Inl err)
    with Cons.prems x c have "e = err" by simp
    with createForm_reducer_Inl [OF c [unfolded Inl]] show ?thesis by simp
  next
    case (Inr item)
    with Cons.prems x c have "createForm_reduce env fid es (acc @ [item]) w1 = (Inl e, w')"
      by simp
    then show ?thesis by (rule Cons.IH)
  qed
qed

lemma ex_ResidueType:
  "(\<exists>r. P r) \<longleftrightarrow> P GLASS \<or> P METAL \<or> P ORGANIC \<or> P PAPER \<or> P PLASTIC"
proof
  assume "\<exists>r. P r"
  then obtain r where "P r" ..
  then show "P GLASS \<or> P METAL \<or> P ORGANIC \<or> P PAPER \<or> P PLASTIC"
    by (cases r) simp_all
qed auto

lemma hasUploadedVideoOrInvoice_iff:
  "hasUploadedVideoOrInvoice (Object_entries rest) \<longleftrightarrow>
     (\<exists>r. truthy (in_videoFileName (rest r)) \<or> in_invoicesFileName (rest r) \<noteq> [])"
  unfolding ex_ResidueType
  by (simp add: hasUploadedVideoOrInvoice_def Object_entries_def)


lemma findUser_bob: "findUserByAuthUserId ''auth|bob'' world0 = Inr bob"
  by (simp add: findUserByAuthUserId_def world0_def alice_def bob_def)


section \<open>Submission: the eligibility check (C1)\<close>

text \<open>
  Claim C1. \<open>createForm\<close> fails with \<open>Forbidden\<close> if and only if some category supplies a
  non-empty video file name or a non-empty list of invoice file names and the profile
  type of the resolved user is neither \<open>RECYCLER\<close> nor \<open>WASTE_GENERATOR\<close>. When it fails
  so, the state is the one before the call: no form and no document is persisted. A
  submission of quantities only never fails with \<open>Forbidden\<close>, whatever the profile type.
\<close>

theorem createForm_Forbidden:
  "((\<exists>m. fst (createForm env inp w) = Inl (ForbiddenException m)) \<longleftrightarrow>
      (\<exists>user. findUserByAuthUserId (authUserId inp) w = Inr user \<and>
         u_profileType user \<noteq> RECYCLER \<and> u_profileType user \<noteq> WASTE_GENERATOR \<and>
         (\<exists>r. (\<exists>v. in_videoFileName (restFormData inp r) = Some v \<and> v \<noteq> []) \<or>
              in_invoicesFileName (restFormData inp r) \<noteq> [])))
   \<and> (\<forall>m. fst (createForm env inp w) = Inl (ForbiddenException m) \<longrightarrow>
          snd (createForm env inp w) = w)
   \<and> (\<not> (\<exists>r. (\<exists>v. in_videoFileName (restFormData inp r) = Some v \<and> v \<noteq> []) \<or>
              in_invoicesFileName (restFormData inp r) \<noteq> []) \<longrightarrow>
        (\<forall>m. fst (createForm env inp w) \<noteq> Inl (ForbiddenException m)))"
proof -
  let ?ev = "\<exists>r. (\<exists>v. in_videoFileName (restFormData inp r) = Some v \<and> v \<noteq> []) \<or>
              in_invoicesFileName (restFormData inp r) \<noteq> []"
  have ev: "hasUploadedVideoOrInvoice (Object_entries (restFormData inp)) \<longleftrightarrow> ?ev"
    by (simp add: hasUploadedVideoOrInvoice_iff truthy_iff)
  show ?thesis
  proof (cases "findUserByAuthUserId (authUserId inp) w")
    case (Inl e)
    then have "e = NotFoundException USER_NOT_FOUND"
      by (auto simp: findUserByAuthUserId_def split: option.splits)
    with Inl show ?thesis by (simp add: createForm_def)
  next
    case (Inr user)
    show ?thesis
    proof (cases "u_profileType user \<noteq> RECYCLER \<and> u_profileType user \<noteq> WASTE_GENERATOR \<and> ?ev")
      case True
      with Inr ev show ?thesis by (simp add: createForm_def)
    next
      case False
      obtain f w1 where fc: "form_create env (u_id user) (walletAddress inp) w = (f, w1)"
        by (cases "form_create env (u_id user) (walletAddress inp) w")
      have "fst (createForm env inp w) \<noteq> Inl (ForbiddenException m)" for m
      proof (cases "?ev")
        case no: False
        with Inr ev fc show ?thesis by (simp add: createForm_def)
      next
        case yes: True
        obtain res w2 where rd: "createForm_reduce env (f_id f) (Object_entries (restFormData inp)) [] w1 = (res, w2)"
          by (cases "createForm_reduce env (f_id f) (Object_entries (restFormData inp)) [] w1")
        show ?thesis
        proof (cases res)
          case (Inl e)
          with createForm_reduce_Inl rd have "e = StorageFailure" by blast
          with Inl Inr ev fc rd False yes show ?thesis by (auto simp: createForm_def)
        next
          case r: (Inr items)
          with Inr ev fc rd False yes show ?thesis by (auto simp: createForm_def)
        qed
      qed
      with False Inr show ?thesis by auto
    qed
  qed
qed

theorem createForm_Forbidden_witness:
  "(\<exists>m. fst (createForm env0 (plastic_invoice ''auth|bob'') world0) = Inl (ForbiddenException m))
   \<and> snd (createForm env0 (plastic_invoice ''auth|bob'') world0) = world0
   \<and> (\<forall>m. fst (createForm env0 (quantity_only ''auth|bob'') world0) \<noteq> Inl (ForbiddenException m))"
proof -
  let ?inp = "plastic_invoice ''auth|bob''"
  have u: "findUserByAuthUserId (authUserId ?inp) world0 = Inr bob"
    by (simp add: plastic_invoice_def findUser_bob)
  have p: "u_profileType bob \<noteq> RECYCLER" "u_profileType bob \<noteq> WASTE_GENERATOR"
    by (simp_all add: bob_def)
  have e: "in_invoicesFileName (restFormData ?inp PLASTIC) \<noteq> []"
    by (simp add: plastic_invoice_def)
  from u p e have rhs: "\<exists>user. findUserByAuthUserId (authUserId ?inp) world0 = Inr user \<and>
         u_profileType user \<noteq> RECYCLER \<and> u_profileType user \<noteq> WASTE_GENERATOR \<and>
         (\<exists>r. (\<exists>v. in_videoFileName (restFormData ?inp r) = Some v \<and> v \<noteq> []) \<or>
              in_invoicesFileName (restFormData ?inp r) \<noteq> [])"
    by blast
  have q: "\<not> (\<exists>r. (\<exists>v. in_videoFileName (restFormData (quantity_only ''auth|bob'') r) = Some v \<and> v \<noteq> []) \<or>
              in_invoicesFileName (restFormData (quantity_only ''auth|bob'') r) \<noteq> [])"
    by (simp add: quantity_only_def no_residue_def)
  from rhs createForm_Forbidden [of env0 ?inp world0]
  have a: "\<exists>m. fst (createForm env0 ?inp world0) = Inl (ForbiddenException m)"
    and b: "snd (createForm env0 ?inp world0) = world0"
    by blast+
  from q createForm_Forbidden [of env0 "quantity_only ''auth|bob''" world0]
  have c: "\<forall>m. fst (createForm env0 (quantity_only ''auth|bob'') world0) \<noteq> Inl (ForbiddenException m)"
    by blast
  from a b c show ?thesis by blast
qed


section \<open>Submission without evidence (C2)\<close>

text \<open>
  Claim C2. When no category supplies a video file name and every list of invoice file
  names is empty, \<open>createForm\<close> makes no call to the storage gateway and persists no
  document; for a resolved uploader it persists the form and returns it with an empty
  evidence list.
\<close>

theorem createForm_without_evidence:
  assumes "\<forall>r. \<not> truthy (in_videoFileName (restFormData inp r)) \<and>
               in_invoicesFileName (restFormData inp r) = []"
  shows "s3log (snd (createForm env inp w)) = s3log w \<and>
         documents (snd (createForm env inp w)) = documents w \<and>
         (\<forall>user. findUserByAuthUserId (authUserId inp) w = Inr user \<longrightarrow>
            (\<exists>f. fst (createForm env inp w) = Inr \<lparr>resp_form = f, resp_s3 = []\<rparr> \<and>
                 forms (snd (createForm env inp w)) = forms w @ [f] \<and>
                 f_userId f = u_id user \<and> f_walletAddress f = walletAddress inp))"
proof -
  from assms have ev: "\<not> hasUploadedVideoOrInvoice (Object_entries (restFormData inp))"
    by (simp add: hasUploadedVideoOrInvoice_iff)
  show ?thesis
  proof (cases "findUserByAuthUserId (authUserId inp) w")
    case (Inl e)
    then show ?thesis by (simp add: createForm_def)
  next
    case (Inr user)
    with ev show ?thesis by (simp add: createForm_def form_create_def Let_def)
  qed
qed

theorem createForm_without_evidence_witness:
  "s3log (snd (createForm env0 (quantity_only ''auth|bob'') world0)) = [] \<and>
   documents (snd (createForm env0 (quantity_only ''auth|bob'') world0)) = [] \<and>
   (\<exists>f. fst (createForm env0 (quantity_only ''auth|bob'') world0)
           = Inr \<lparr>resp_form = f, resp_s3 = []\<rparr> \<and>
        forms (snd (createForm env0 (quantity_only ''auth|bob'') world0)) = [f] \<and>
        f_userId f = ''u2'' \<and> f_walletAddress f = None)"
proof -
  let ?inp = "quantity_only ''auth|bob''"
  have h: "\<forall>r. \<not> truthy (in_videoFileName (restFormData ?inp r)) \<and>
               in_invoicesFileName (restFormData ?inp r) = []"
    by (simp add: quantity_only_def no_residue_def truthy_def)
  have u: "findUserByAuthUserId (authUserId ?inp) world0 = Inr bob"
    by (simp add: quantity_only_def findUser_bob)
  from createForm_without_evidence [OF h, of env0 world0] u
  show ?thesis by (simp add: world0_def bob_def quantity_only_def)
qed

section \<open>Auxiliary facts: a submission as a whole\<close>

lemma Object_entries_nth:
  "length (Object_entries rest) = 5"
  "\<exists>i<5. Object_entries rest ! i = (r, rest r)"
  "i < 5 \<Longrightarrow> Object_entries rest ! i = ([GLASS, METAL, ORGANIC, PAPER, PLASTIC] ! i, rest ([GLASS, METAL, ORGANIC, PAPER, PLASTIC] ! i))"
proof -
  show "length (Object_entries rest) = 5" by (simp add: Object_entries_def)
  show "\<exists>i<5. Object_entries rest ! i = (r, rest r)"
  proof (cases r)
    case GLASS then show ?thesis by (intro exI [of _ 0]) (simp add: Object_entries_def)
  next
    case METAL then show ?thesis by (intro exI [of _ 1]) (simp add: Object_entries_def)
  next
    case ORGANIC then show ?thesis by (intro exI [of _ 2]) (simp add: Object_entries_def)
  next
    case PAPER then show ?thesis by (intro exI [of _ 3]) (simp add: Object_entries_def)
  next
    case PLASTIC then show ?thesis by (intro exI [of _ 4]) (simp add: Object_entries_def)
  qed
  show "i < 5 \<Longrightarrow> Object_entries rest ! i = ([GLASS, METAL, ORGANIC, PAPER, PLASTIC] ! i, rest ([GLASS, METAL, ORGANIC, PAPER, PLASTIC] ! i))"
    unfolding Object_entries_def by (subst nth_map) simp_all
qed


lemma form_create_frame:
  "form_create env uid wallet w = (f, w1) \<Longrightarrow>
     documents w1 = documents w \<and> s3log w1 = s3log w \<and> users w1 = users w \<and>
     forms w1 = forms w @ [f]"
  by (auto simp: form_create_def Let_def)

lemma form_create_quantities:
  "form_create env uid wallet w = (f, w1) \<Longrightarrow>
     f_glassKgs f = 0 \<and> f_metalKgs f = 0 \<and> f_organicKgs f = 0 \<and> f_paperKgs f = 0 \<and>
     f_plasticKgs f = 0"
  by (auto simp: form_create_def Let_def)









lemma createForm_documents_any:
  assumes "createForm env inp w = (res, w')"
  shows "\<exists>ds. documents w' = documents w @ ds \<and> length ds \<le> 5 \<and>
           (\<forall>i<length ds.
              d_residueType (ds ! i) = [GLASS, METAL, ORGANIC, PAPER, PLASTIC] ! i \<and>
              d_amount (ds ! i)
                = in_amount (restFormData inp ([GLASS, METAL, ORGANIC, PAPER, PLASTIC] ! i)))"
proof (cases "findUserByAuthUserId (authUserId inp) w")
  case (Inl e)
  with assms have "w' = w" by (simp add: createForm_def)
  then show ?thesis by simp
next
  case (Inr user)
  let ?ev = "hasUploadedVideoOrInvoice (Object_entries (restFormData inp))"
  obtain f w1 where fc: "form_create env (u_id user) (walletAddress inp) w = (f, w1)"
    by (cases "form_create env (u_id user) (walletAddress inp) w")
  obtain r w2 where rd:
    "createForm_reduce env (f_id f) (Object_entries (restFormData inp)) [] w1 = (r, w2)"
    by (cases "createForm_reduce env (f_id f) (Object_entries (restFormData inp)) [] w1")
  from assms Inr fc rd have "w' = w \<or> w' = w1 \<or> w' = w2 \<and> ?ev"
    by (auto simp: createForm_def Let_def split: if_splits sum.splits)
  moreover from form_create_frame [OF fc] have d1: "documents w1 = documents w" by simp
  moreover from createForm_reduce_documents [OF rd] d1
  have "\<exists>ds. documents w2 = documents w @ ds \<and> length ds \<le> 5 \<and>
           (\<forall>i<length ds.
              d_residueType (ds ! i) = [GLASS, METAL, ORGANIC, PAPER, PLASTIC] ! i \<and>
              d_amount (ds ! i)
                = in_amount (restFormData inp ([GLASS, METAL, ORGANIC, PAPER, PLASTIC] ! i)))"
    by (auto simp: Object_entries_nth(1) Object_entries_nth(3))
  ultimately show ?thesis by auto
qed


lemma createForm_forms_any:
  assumes "createForm env inp w = (res, w')"
  shows "forms w' = forms w \<or>
         (\<exists>f. forms w' = forms w @ [f] \<and>
            f_glassKgs f = 0 \<and> f_metalKgs f = 0 \<and> f_organicKgs f = 0 \<and> f_paperKgs f = 0 \<and>
            f_plasticKgs f = 0)"
proof (cases "findUserByAuthUserId (authUserId inp) w")
  case (Inl e)
  with assms have "w' = w" by (simp add: createForm_def)
  then show ?thesis by simp
next
  case (Inr user)
  obtain f w1 where fc: "form_create env (u_id user) (walletAddress inp) w = (f, w1)"
    by (cases "form_create env (u_id user) (walletAddress inp) w")
  obtain r w2 where rd:
    "createForm_reduce env (f_id f) (Object_entries (restFormData inp)) [] w1 = (r, w2)"
    by (cases "createForm_reduce env (f_id f) (Object_entries (restFormData inp)) [] w1")
  from assms Inr fc rd have "w' = w \<or> w' = w1 \<or> w' = w2"
    by (auto simp: createForm_def Let_def split: if_splits sum.splits)
  moreover from form_create_frame [OF fc] have "forms w1 = forms w @ [f]" by simp
  moreover from createForm_reduce_documents [OF rd] have "forms w2 = forms w1" by blast
  moreover note form_create_quantities [OF fc]
  ultimately show ?thesis by auto
qed






text \<open>The example submissions, evaluated.\<close>

lemmas eval_defs = createForm_def findUserByAuthUserId_def world0_def alice_def bob_def
     hasUploadedVideoOrInvoice_def Object_entries_def truthy_def no_residue_def form_create_def
     createForm_reducer_def s3_call_def residue_request_def document_create_def env0_def Let_def
     doc0_def item0_def form0_def s3obj0_def



lemma createForm_negative_alice:
  "createForm env0 (negative_glass ''auth|alice'') world0 =
     (Inr \<lparr>resp_form = form0 ''u1'' None,
            resp_s3 = [\<lparr>r_invoicesCreateUrl = [], r_invoicesFileName = [],
                r_videoCreateUrl = ''https://s3.test/v.mp4?sig=1'',
                r_videoFileName = Some ''key-v.mp4'', r_residue = GLASS\<rparr>,
                item0 METAL, item0 ORGANIC, item0 PAPER, item0 PLASTIC]\<rparr>,
      world0\<lparr>forms := [form0 ''u1'' None],
             documents := [\<lparr>d_id = ''idx'', d_formId = ''id'', d_residueType = GLASS,
                  d_amount = - 1, d_videoFileName = Some ''key-v.mp4'',
                  d_invoicesFileName = []\<rparr>,
                doc0 2 METAL, doc0 3 ORGANIC, doc0 4 PAPER, doc0 5 PLASTIC],
             s3log := [(residue_request ''v.mp4'' GLASS, Some (s3obj0 ''v.mp4''))],
             seq := 6\<rparr>)"
  by (simp add: eval_defs negative_glass_def numeral_eq_Suc)

section \<open>Submission with evidence: one document per category (C3)\<close>




section \<open>Order of the invoice upload URLs (C4)\<close>



section \<open>Documents hold the storage-assigned file names (C5)\<close>




section \<open>Amounts of the persisted documents (C9)\<close>

text \<open>
  Claim C9, as amended. \<open>createForm\<close> does not validate amounts: every document it
  persists stores the amount supplied for its category, unchanged. Hence the stored
  amounts are non-negative when every supplied amount is non-negative. The form it
  persists has all five residue quantities at their default, zero.
\<close>

theorem createForm_document_amounts:
  assumes "createForm env inp w = (res, w')"
  shows "(\<exists>ds. documents w' = documents w @ ds \<and>
           (\<forall>d \<in> set ds. d_amount d = in_amount (restFormData inp (d_residueType d))) \<and>
           ((\<forall>r. 0 \<le> in_amount (restFormData inp r)) \<longrightarrow> (\<forall>d \<in> set ds. 0 \<le> d_amount d)))
       \<and> (forms w' = forms w \<or>
           (\<exists>f. forms w' = forms w @ [f] \<and>
              f_glassKgs f = 0 \<and> f_metalKgs f = 0 \<and> f_organicKgs f = 0 \<and> f_paperKgs f = 0 \<and>
              f_plasticKgs f = 0))"
proof (rule conjI)
  from createForm_documents_any [OF assms] obtain ds where
    ds: "documents w' = documents w @ ds"
    and nth: "\<forall>i<length ds.
              d_residueType (ds ! i) = [GLASS, METAL, ORGANIC, PAPER, PLASTIC] ! i \<and>
              d_amount (ds ! i)
                = in_amount (restFormData inp ([GLASS, METAL, ORGANIC, PAPER, PLASTIC] ! i))"
    by blast
  have eq: "d_amount d = in_amount (restFormData inp (d_residueType d))" if "d \<in> set ds" for d
  proof -
    from that obtain i where "i < length ds" "d = ds ! i" by (auto simp: in_set_conv_nth)
    with nth show ?thesis by simp
  qed
  then have "(\<forall>r. 0 \<le> in_amount (restFormData inp r)) \<longrightarrow> (\<forall>d \<in> set ds. 0 \<le> d_amount d)"
    by simp
  with ds eq show "\<exists>ds. documents w' = documents w @ ds \<and>
           (\<forall>d \<in> set ds. d_amount d = in_amount (restFormData inp (d_residueType d))) \<and>
           ((\<forall>r. 0 \<le> in_amount (restFormData inp r)) \<longrightarrow> (\<forall>d \<in> set ds. 0 \<le> d_amount d))"
    by blast
  from assms show "forms w' = forms w \<or>
           (\<exists>f. forms w' = forms w @ [f] \<and>
              f_glassKgs f = 0 \<and> f_metalKgs f = 0 \<and> f_organicKgs f = 0 \<and> f_paperKgs f = 0 \<and>
              f_plasticKgs f = 0)"
    by (rule createForm_forms_any)
qed

theorem createForm_document_amounts_witness:
  "list_all (\<lambda>d. d_amount d
                  = in_amount (restFormData (plastic_invoice ''auth|alice'') (d_residueType d)))
      (documents (snd (createForm env0 (plastic_invoice ''auth|alice'') world0))) \<and>
   list_all (\<lambda>d. 0 \<le> d_amount d)
      (documents (snd (createForm env0 (plastic_invoice ''auth|alice'') world0)))"
proof -
  let ?inp = "plastic_invoice ''auth|alice''"
  let ?w' = "snd (createForm env0 ?inp world0)"
  have nn: "\<forall>r. 0 \<le> in_amount (restFormData ?inp r)"
    by (simp add: plastic_invoice_def no_residue_def)
  have run: "createForm env0 ?inp world0 = (fst (createForm env0 ?inp world0), ?w')"
    by simp
  from createForm_document_amounts [OF run, THEN conjunct1] obtain ds where
    ds: "documents ?w' = documents world0 @ ds"
      "\<forall>d \<in> set ds. d_amount d = in_amount (restFormData ?inp (d_residueType d))"
      "(\<forall>r. 0 \<le> in_amount (restFormData ?inp r)) \<longrightarrow> (\<forall>d \<in> set ds. 0 \<le> d_amount d)"
    by (elim exE conjE) (rule that; assumption)
  from ds(1) have "documents ?w' = ds" by (simp add: world0_def)
  with ds(2,3) nn show ?thesis by (simp add: list_all_iff)
qed

text \<open>
  The claim as first stated (every stored amount is non-negative, for all inputs) fails:
  a submission with amount \<open>-1\<close> for \<open>GLASS\<close> persists a document with amount \<open>-1\<close>.
\<close>

theorem createForm_negative_amount_counterexample:
  "d_amount (hd (documents (snd (createForm env0 (negative_glass ''auth|alice'') world0)))) < 0"
  by (simp add: createForm_negative_alice)

section \<open>Auxiliary facts: the aggregate query\<close>

lemma aggregate_rows:
  "filter (\<lambda>d. list_ex (\<lambda>i. d_formId d = i) (map f_id (form_findMany_profileType p w)))
      (documents w)
   = filter (belongs_to_profile w p) (documents w)"
proof (rule filter_cong)
  fix d
  show "list_ex (\<lambda>i. d_formId d = i) (map f_id (form_findMany_profileType p w))
          = belongs_to_profile w p d"
    unfolding list_ex_iff form_findMany_profileType_def belongs_to_profile_def
    by (simp add: image_iff) metis
qed simp

lemma aggregate_or_zero:
  "or_zero (document_aggregate_sum_amount (map f_id (form_findMany_profileType p w)) w)
     = spec_aggregate w p"
  by (simp add: document_aggregate_sum_amount_def Let_def aggregate_rows spec_aggregate_def
        or_zero_def)

section \<open>Aggregate reporting (C6)\<close>

text \<open>
  Claim C6. \<open>aggregateFormByUserProfile\<close> returns, for \<open>RECYCLER\<close> and for
  \<open>WASTE_GENERATOR\<close>, the sum of the amounts of all documents whose form belongs to a
  user of that profile type; the value is the number 0, never absent, when no form or no
  document matches.
\<close>

theorem aggregateFormByUserProfile_sums:
  "aggregateFormByUserProfile w =
     [\<lparr>a_id = RECYCLER, a_data = spec_aggregate w RECYCLER\<rparr>,
      \<lparr>a_id = WASTE_GENERATOR, a_data = spec_aggregate w WASTE_GENERATOR\<rparr>]
   \<and> (\<forall>p. form_findMany_profileType p w = [] \<or>
            \<not> (\<exists>d \<in> set (documents w). belongs_to_profile w p d)
          \<longrightarrow> spec_aggregate w p = 0 \<and>
              or_zero (document_aggregate_sum_amount
                         (map f_id (form_findMany_profileType p w)) w) = 0)"
proof -
  have zero: "spec_aggregate w p = 0"
    if "form_findMany_profileType p w = [] \<or>
        \<not> (\<exists>d \<in> set (documents w). belongs_to_profile w p d)" for p
  proof -
    have "filter (belongs_to_profile w p) (documents w) = []"
      using that
    proof
      assume "form_findMany_profileType p w = []"
      then have "filter (\<lambda>d. list_ex (\<lambda>i. d_formId d = i)
                    (map f_id (form_findMany_profileType p w))) (documents w) = []"
        by simp
      then show ?thesis by (simp only: aggregate_rows)
    next
      assume "\<not> (\<exists>d \<in> set (documents w). belongs_to_profile w p d)"
      then show ?thesis by (simp add: filter_empty_conv)
    qed
    then show ?thesis by (simp add: spec_aggregate_def)
  qed
  show ?thesis
    by (simp add: aggregateFormByUserProfile_def Let_def aggregate_or_zero zero)
qed


theorem aggregateFormByUserProfile_sums_witness:
  "aggregateFormByUserProfile world_agg =
     [\<lparr>a_id = RECYCLER, a_data = 25 / 2\<rparr>, \<lparr>a_id = WASTE_GENERATOR, a_data = 0\<rparr>]
   \<and> aggregateFormByUserProfile world0 =
     [\<lparr>a_id = RECYCLER, a_data = 0\<rparr>, \<lparr>a_id = WASTE_GENERATOR, a_data = 0\<rparr>]"
proof -
  have r: "spec_aggregate world_agg RECYCLER = 25 / 2"
    by (simp add: spec_aggregate_def belongs_to_profile_def world_agg_def alice_def bob_def
          form0_def doc0_def)
  have g: "form_findMany_profileType WASTE_GENERATOR world_agg = []"
    by (simp add: form_findMany_profileType_def world_agg_def alice_def bob_def form0_def)
  have e: "form_findMany_profileType p world0 = []" for p
    by (simp add: form_findMany_profileType_def world0_def)
  from aggregateFormByUserProfile_sums [of world_agg] r g
       aggregateFormByUserProfile_sums [of world0] e
  show ?thesis by simp
qed

section \<open>Auxiliary facts: updating a form\<close>

lemma find_form_None:
  "find (\<lambda>f. f_id f = i) fs = None \<longleftrightarrow> \<not> (\<exists>f \<in> set fs. f_id f = i)"
  by (auto simp: find_None_iff)

lemma update_first_Some:
  "find (\<lambda>f. f_id f = i) fs = Some f \<Longrightarrow>
     \<exists>k<length fs. fs ! k = f \<and> f_id f = i \<and> (\<forall>j<k. f_id (fs ! j) \<noteq> i) \<and>
        update_first i g fs = Some (g f, fs[k := g f])"
proof (induction fs)
  case Nil
  then show ?case by simp
next
  case (Cons x fs)
  show ?case
  proof (cases "f_id x = i")
    case True
    with Cons.prems have "x = f" by simp
    with True show ?thesis by (intro exI [of _ 0]) simp
  next
    case False
    with Cons.prems have "find (\<lambda>f. f_id f = i) fs = Some f" by simp
    from Cons.IH [OF this] obtain k where
      k: "k < length fs" "fs ! k = f" "f_id f = i" "\<forall>j<k. f_id (fs ! j) \<noteq> i"
         "update_first i g fs = Some (g f, fs[k := g f])"
      by blast
    have "\<forall>j<Suc k. f_id ((x # fs) ! j) \<noteq> i"
    proof (intro allI impI)
      fix j assume "j < Suc k"
      then show "f_id ((x # fs) ! j) \<noteq> i" using False k(4) by (cases j) simp_all
    qed
    with k False show ?thesis by (intro exI [of _ "Suc k"]) simp
  qed
qed

lemma find_after_update:
  assumes "k < length fs" "\<forall>j<k. f_id (fs ! j) \<noteq> i" "f_id f' = i"
  shows "find (\<lambda>f. f_id f = i) (fs[k := f']) = Some f'"
  using assms
proof (induction fs arbitrary: k)
  case Nil
  then show ?case by simp
next
  case (Cons x fs)
  show ?case
  proof (cases k)
    case 0
    with Cons.prems show ?thesis by simp
  next
    case (Suc n)
    with Cons.prems have x: "f_id x \<noteq> i" by auto
    from Suc Cons.prems have "n < length fs" "\<forall>j<n. f_id (fs ! j) \<noteq> i" by auto
    from Cons.IH [OF this Cons.prems(3)] Suc x show ?thesis by simp
  qed
qed

lemma first_unique:
  fixes k m :: nat
  assumes "Q k" "\<forall>j<k. \<not> Q j" "Q m" "\<forall>j<m. \<not> Q j"
  shows "k = m"
proof (rule ccontr)
  assume "k \<noteq> m"
  then consider "k < m" | "m < k" by linarith
  then show False using assms by cases auto
qed

section \<open>Authorization toggle (C7)\<close>

text \<open>
  Claim C7. \<open>authorizeForm\<close> fails with \<open>NotFound\<close> and leaves the state unchanged when
  no form has the identity. Otherwise it returns the form with the authorization flag set
  to the given boolean, and the state differs from the one before only in that flag of
  that form: every other field, every other form and every document is unchanged. Setting
  the flag to true and then to false leaves it false and the documents as they were.
\<close>

theorem authorizeForm_frame:
  "(\<not> (\<exists>f \<in> set (forms w). f_id f = formId) \<longrightarrow>
      authorizeForm formId flag w = (Inl (NotFoundException FORM_NOT_FOUND), w))
   \<and> ((\<exists>f \<in> set (forms w). f_id f = formId) \<longrightarrow>
      (\<exists>k<length (forms w). f_id (forms w ! k) = formId \<and>
         findByFormId formId w = Inr (forms w ! k) \<and>
         authorizeForm formId flag w =
           (Inr ((forms w ! k)\<lparr>f_isFormAuthorizedByAdmin := flag\<rparr>),
            w\<lparr>forms := (forms w)[k := (forms w ! k)\<lparr>f_isFormAuthorizedByAdmin := flag\<rparr>]\<rparr>) \<and>
         findByFormId formId (snd (authorizeForm formId flag w))
           = Inr ((forms w ! k)\<lparr>f_isFormAuthorizedByAdmin := flag\<rparr>)))
   \<and> ((\<exists>f \<in> set (forms w). f_id f = formId) \<longrightarrow>
      (\<exists>f2. authorizeForm formId False (snd (authorizeForm formId True w))
              = (Inr f2, snd (authorizeForm formId False w)) \<and>
            f_isFormAuthorizedByAdmin f2 = False \<and>
            findByFormId formId (snd (authorizeForm formId False w)) = Inr f2 \<and>
            documents (snd (authorizeForm formId False (snd (authorizeForm formId True w))))
              = documents w))"
proof -
  have absent: "authorizeForm formId b v = (Inl (NotFoundException FORM_NOT_FOUND), v)"
    if "\<not> (\<exists>f \<in> set (forms v). f_id f = formId)" for b v
  proof -
    from that have "find (\<lambda>f. f_id f = formId) (forms v) = None"
      using find_form_None [of formId "forms v"] by blast
    then show ?thesis by (simp add: authorizeForm_def findByFormId_def)
  qed
  have present: "\<exists>k<length (forms v). f_id (forms v ! k) = formId \<and>
         (\<forall>j<k. f_id (forms v ! j) \<noteq> formId) \<and>
         findByFormId formId v = Inr (forms v ! k) \<and>
         authorizeForm formId b v =
           (Inr ((forms v ! k)\<lparr>f_isFormAuthorizedByAdmin := b\<rparr>),
            v\<lparr>forms := (forms v)[k := (forms v ! k)\<lparr>f_isFormAuthorizedByAdmin := b\<rparr>]\<rparr>) \<and>
         findByFormId formId (snd (authorizeForm formId b v))
           = Inr ((forms v ! k)\<lparr>f_isFormAuthorizedByAdmin := b\<rparr>)"
    if "\<exists>f \<in> set (forms v). f_id f = formId" for b v
  proof -
    from that obtain f where f: "find (\<lambda>f. f_id f = formId) (forms v) = Some f"
      by (cases "find (\<lambda>f. f_id f = formId) (forms v)") (auto simp: find_form_None)
    let ?g = "\<lambda>f. f\<lparr>f_isFormAuthorizedByAdmin := b\<rparr>"
    from update_first_Some [OF f, of ?g] obtain k where
      k: "k < length (forms v)" "forms v ! k = f" "f_id f = formId"
         "\<forall>j<k. f_id (forms v ! j) \<noteq> formId"
         "update_first formId ?g (forms v) = Some (?g f, (forms v)[k := ?g f])"
      by blast
    from f k(3,5) have run: "authorizeForm formId b v = (Inr (?g f), v\<lparr>forms := (forms v)[k := ?g f]\<rparr>)"
      by (simp add: authorizeForm_def findByFormId_def form_update_def)
    have "find (\<lambda>f. f_id f = formId) ((forms v)[k := ?g f]) = Some (?g f)"
      by (rule find_after_update) (use k in simp_all)
    then have "findByFormId formId (snd (authorizeForm formId b v)) = Inr (?g f)"
      by (simp add: run findByFormId_def)
    with f k run show ?thesis
      by (intro exI [of _ k]) (simp add: findByFormId_def)
  qed
  have twice: "\<exists>f2. authorizeForm formId False (snd (authorizeForm formId True w))
              = (Inr f2, snd (authorizeForm formId False w)) \<and>
            f_isFormAuthorizedByAdmin f2 = False \<and>
            findByFormId formId (snd (authorizeForm formId False w)) = Inr f2 \<and>
            documents (snd (authorizeForm formId False (snd (authorizeForm formId True w))))
              = documents w"
    if ex: "\<exists>f \<in> set (forms w). f_id f = formId"
  proof -
    from present [OF ex, of True] obtain k where
      k: "k < length (forms w)" "f_id (forms w ! k) = formId"
         "\<forall>j<k. f_id (forms w ! j) \<noteq> formId"
         "authorizeForm formId True w =
           (Inr ((forms w ! k)\<lparr>f_isFormAuthorizedByAdmin := True\<rparr>),
            w\<lparr>forms := (forms w)[k := (forms w ! k)\<lparr>f_isFormAuthorizedByAdmin := True\<rparr>]\<rparr>)"
      by blast
    from present [OF ex, of False] obtain k' where
      k': "k' < length (forms w)" "f_id (forms w ! k') = formId"
         "\<forall>j<k'. f_id (forms w ! j) \<noteq> formId"
         "authorizeForm formId False w =
           (Inr ((forms w ! k')\<lparr>f_isFormAuthorizedByAdmin := False\<rparr>),
            w\<lparr>forms := (forms w)[k' := (forms w ! k')\<lparr>f_isFormAuthorizedByAdmin := False\<rparr>]\<rparr>)"
         "findByFormId formId (snd (authorizeForm formId False w))
           = Inr ((forms w ! k')\<lparr>f_isFormAuthorizedByAdmin := False\<rparr>)"
      by blast
    from k'(2,3) k(2,3) have same: "k' = k"
      by (rule first_unique [of "\<lambda>j. f_id (forms w ! j) = formId"])
    let ?w1 = "w\<lparr>forms := (forms w)[k := (forms w ! k)\<lparr>f_isFormAuthorizedByAdmin := True\<rparr>]\<rparr>"
    have ids: "f_id (forms ?w1 ! j) = f_id (forms w ! j)" if "j < length (forms w)" for j
      using that by (cases "j = k") simp_all
    have ex1: "\<exists>f \<in> set (forms ?w1). f_id f = formId"
    proof (rule bexI [of _ "(forms w ! k)\<lparr>f_isFormAuthorizedByAdmin := True\<rparr>"])
      show "f_id ((forms w ! k)\<lparr>f_isFormAuthorizedByAdmin := True\<rparr>) = formId"
        using k(2) by simp
      show "(forms w ! k)\<lparr>f_isFormAuthorizedByAdmin := True\<rparr> \<in> set (forms ?w1)"
        using k(1) by (simp add: set_update_memI)
    qed
    from present [OF ex1, of False] obtain m where
      m: "m < length (forms ?w1)" "f_id (forms ?w1 ! m) = formId"
         "\<forall>j<m. f_id (forms ?w1 ! j) \<noteq> formId"
         "authorizeForm formId False ?w1 =
           (Inr ((forms ?w1 ! m)\<lparr>f_isFormAuthorizedByAdmin := False\<rparr>),
            ?w1\<lparr>forms := (forms ?w1)[m := (forms ?w1 ! m)\<lparr>f_isFormAuthorizedByAdmin := False\<rparr>]\<rparr>)"
      by blast
    from m(1) have ml: "m < length (forms w)" by simp
    from m(2) ids [OF ml] have m2: "f_id (forms w ! m) = formId" by metis
    have m3: "\<forall>j<m. f_id (forms w ! j) \<noteq> formId"
    proof (intro allI impI)
      fix j assume jm: "j < m"
      with ml have "j < length (forms w)" by simp
      from ids [OF this] m(3) jm show "f_id (forms w ! j) \<noteq> formId" by metis
    qed
    from m2 m3 k(2,3) have "m = k"
      by (rule first_unique [of "\<lambda>j. f_id (forms w ! j) = formId"])
    with m(4) k(1)
    have run2: "authorizeForm formId False ?w1
        = (Inr ((forms w ! k)\<lparr>f_isFormAuthorizedByAdmin := False\<rparr>),
           w\<lparr>forms := (forms w)[k := (forms w ! k)\<lparr>f_isFormAuthorizedByAdmin := False\<rparr>]\<rparr>)"
      by simp
    show ?thesis
      using run2 k(4) k'(4,5) same
      by (intro exI [of _ "(forms w ! k)\<lparr>f_isFormAuthorizedByAdmin := False\<rparr>"]) simp
  qed
  from absent present twice show ?thesis by blast
qed

theorem authorizeForm_frame_witness:
  "authorizeForm ''missing'' True world_agg = (Inl (NotFoundException FORM_NOT_FOUND), world_agg)
   \<and> (\<exists>f2. authorizeForm ''id'' False (snd (authorizeForm ''id'' True world_agg))
              = (Inr f2, snd (authorizeForm ''id'' False world_agg)) \<and>
            f_isFormAuthorizedByAdmin f2 = False \<and>
            findByFormId ''id'' (snd (authorizeForm ''id'' False world_agg)) = Inr f2 \<and>
            documents (snd (authorizeForm ''id'' False (snd (authorizeForm ''id'' True world_agg))))
              = documents world_agg)"
proof -
  have a: "\<not> (\<exists>f \<in> set (forms world_agg). f_id f = ''missing'')"
    by (simp add: world_agg_def form0_def)
  have b: "\<exists>f \<in> set (forms world_agg). f_id f = ''id''"
    by (simp add: world_agg_def form0_def)
  from a authorizeForm_frame [where w = world_agg and formId = "''missing''" and flag = True]
  have 1: "authorizeForm ''missing'' True world_agg
             = (Inl (NotFoundException FORM_NOT_FOUND), world_agg)"
    by blast
  from b authorizeForm_frame [where w = world_agg and formId = "''id''" and flag = True]
  have 2: "\<exists>f2. authorizeForm ''id'' False (snd (authorizeForm ''id'' True world_agg))
              = (Inr f2, snd (authorizeForm ''id'' False world_agg)) \<and>
            f_isFormAuthorizedByAdmin f2 = False \<and>
            findByFormId ''id'' (snd (authorizeForm ''id'' False world_agg)) = Inr f2 \<and>
            documents (snd (authorizeForm ''id'' False (snd (authorizeForm ''id'' True world_agg))))
              = documents world_agg"
    by blast
  from 1 2 show ?thesis by (rule conjI)
qed

section \<open>Auxiliary facts: the metadata\<close>

lemma foldl_push: "foldl (\<lambda>acc x. acc @ [h x]) init xs = init @ map h xs"
  by (induction xs arbitrary: init) simp_all

lemma createFormMetadata_Inr:
  assumes "createFormMetadata env formId w = (Inr res, w')"
  obtains (run) form user obj u k where
      "findByFormId formId w = Inr form" "f_id form = formId"
      "findUserByUserId (f_userId form) w = Inr user"
      "createPreSignedObjectUrl env (length (s3log w))
         \<lparr>rq_fileName = formId @ ''.json'', rq_residueType = None,
           rq_basePath = Some ''metadata'', rq_bucket = Some ''detrash-public''\<rparr> = Some obj"
      "URL_new env (createUrl obj) = Some u"
      "k < length (forms w)" "forms w ! k = form" "\<forall>j<k. f_id (forms w ! j) \<noteq> formId"
      "w' = w\<lparr>s3log := s3log w @
                 [(\<lparr>rq_fileName = formId @ ''.json'', rq_residueType = None,
                    rq_basePath = Some ''metadata'', rq_bucket = Some ''detrash-public''\<rparr>,
                   Some obj)],
              forms := (forms w)[k := form\<lparr>f_formMetadataUrl :=
                                     Some (url_origin u @ url_pathname u)\<rparr>]\<rparr>"
      "res = \<lparr>createMetadataUrl = createUrl obj,
              body = \<lparr>m_attributes =
                         [\<lparr>trait_type = ''Originating wallet'',
                           trait_value = (if truthy (f_walletAddress form)
                                          then the (f_walletAddress form) else ''0x0'')\<rparr>,
                          \<lparr>trait_type = ''Audit'',
                           trait_value = (if f_isFormAuthorizedByAdmin form
                                          then ''Verified'' else ''Not Verified'')\<rparr>]
                         @ map (\<lambda>d. \<lparr>trait_type = getResidueTitle env (d_residueType d) @ '' kgs'',
                                      trait_value = String_number env (d_amount d)\<rparr>)
                             (listDocumentsFromForm formId w),
                       m_description = ''RECY Report'',
                       m_image = url_origin u @ ''/images/'' @ formId @ ''.png'',
                       m_name = u_email user\<rparr>\<rparr>"
proof -
  let ?rq = "\<lparr>rq_fileName = formId @ ''.json'', rq_residueType = None,
           rq_basePath = Some ''metadata'', rq_bucket = Some ''detrash-public''\<rparr>"
  from assms obtain form where f: "find (\<lambda>f. f_id f = formId) (forms w) = Some form"
    by (cases "find (\<lambda>f. f_id f = formId) (forms w)")
       (simp_all add: createFormMetadata_def findByFormId_def)
  then have fb: "findByFormId formId w = Inr form" by (simp add: findByFormId_def)
  from f have fid: "f_id form = formId" by (auto simp: find_Some_iff)
  from assms fb obtain user where us: "findUserByUserId (f_userId form) w = Inr user"
    by (cases "findUserByUserId (f_userId form) w") (simp_all add: createFormMetadata_def)
  from assms fb us fid obtain obj where
    ob: "createPreSignedObjectUrl env (length (s3log w)) ?rq = Some obj"
    by (cases "createPreSignedObjectUrl env (length (s3log w)) ?rq")
       (simp_all add: createFormMetadata_def createOnPublicObject_def s3_call_def Let_def)
  let ?w1 = "w\<lparr>s3log := s3log w @ [(?rq, Some obj)]\<rparr>"
  from ob fid have pub: "createOnPublicObject env (f_id form @ ''.json'') ''metadata'' w
      = (Inr (createUrl obj), ?w1)"
    by (simp add: createOnPublicObject_def s3_call_def Let_def)
  from assms fb us pub obtain u where u: "URL_new env (createUrl obj) = Some u"
    by (cases "URL_new env (createUrl obj)") (simp_all add: createFormMetadata_def Let_def)
  let ?g = "\<lambda>f. f\<lparr>f_formMetadataUrl := Some (url_origin u @ url_pathname u)\<rparr>"
  from update_first_Some [OF f, of ?g] obtain k where
    k: "k < length (forms w)" "forms w ! k = form" "\<forall>j<k. f_id (forms w ! j) \<noteq> formId"
       "update_first formId ?g (forms w) = Some (?g form, (forms w)[k := ?g form])"
    by blast
  from k(4) have up: "form_update formId ?g ?w1 = (Inr (?g form), ?w1\<lparr>forms := (forms w)[k := ?g form]\<rparr>)"
    by (simp add: form_update_def)
  from assms fb us pub u up fid have
    "w' = ?w1\<lparr>forms := (forms w)[k := ?g form]\<rparr>"
    "res = \<lparr>createMetadataUrl = createUrl obj,
              body = \<lparr>m_attributes =
                         [\<lparr>trait_type = ''Originating wallet'',
                           trait_value = (if truthy (f_walletAddress form)
                                          then the (f_walletAddress form) else ''0x0'')\<rparr>,
                          \<lparr>trait_type = ''Audit'',
                           trait_value = (if f_isFormAuthorizedByAdmin form
                                          then ''Verified'' else ''Not Verified'')\<rparr>]
                         @ map (\<lambda>d. \<lparr>trait_type = getResidueTitle env (d_residueType d) @ '' kgs'',
                                      trait_value = String_number env (d_amount d)\<rparr>)
                             (listDocumentsFromForm formId w),
                       m_description = ''RECY Report'',
                       m_image = url_origin u @ ''/images/'' @ formId @ ''.png'',
                       m_name = u_email user\<rparr>\<rparr>"
    by (simp_all add: createFormMetadata_def Let_def foldl_push)
  then have fin:
    "w' = w\<lparr>s3log := s3log w @ [(?rq, Some obj)], forms := (forms w)[k := ?g form]\<rparr>"
    "res = \<lparr>createMetadataUrl = createUrl obj,
              body = \<lparr>m_attributes =
                         [\<lparr>trait_type = ''Originating wallet'',
                           trait_value = (if truthy (f_walletAddress form)
                                          then the (f_walletAddress form) else ''0x0'')\<rparr>,
                          \<lparr>trait_type = ''Audit'',
                           trait_value = (if f_isFormAuthorizedByAdmin form
                                          then ''Verified'' else ''Not Verified'')\<rparr>]
                         @ map (\<lambda>d. \<lparr>trait_type = getResidueTitle env (d_residueType d) @ '' kgs'',
                                      trait_value = String_number env (d_amount d)\<rparr>)
                             (listDocumentsFromForm formId w),
                       m_description = ''RECY Report'',
                       m_image = url_origin u @ ''/images/'' @ formId @ ''.png'',
                       m_name = u_email user\<rparr>\<rparr>"
    by simp_all
  show thesis
    by (rule that [OF fb fid us ob u k(1) k(2) k(3) fin])
qed



lemma createFormMetadata_returns:
  assumes "findByFormId formId w = Inr form"
    and "findUserByUserId (f_userId form) w = Inr user"
    and "createPreSignedObjectUrl env (length (s3log w))
           \<lparr>rq_fileName = formId @ ''.json'', rq_residueType = None,
             rq_basePath = Some ''metadata'', rq_bucket = Some ''detrash-public''\<rparr> = Some obj"
    and "URL_new env (createUrl obj) = Some u"
  shows "\<exists>res w'. createFormMetadata env formId w = (Inr res, w')"
proof -
  let ?rq = "\<lparr>rq_fileName = formId @ ''.json'', rq_residueType = None,
           rq_basePath = Some ''metadata'', rq_bucket = Some ''detrash-public''\<rparr>"
  from assms(1) have f: "find (\<lambda>f. f_id f = formId) (forms w) = Some form"
    by (auto simp: findByFormId_def split: option.splits)
  then have fid: "f_id form = formId" by (auto simp: find_Some_iff)
  let ?w1 = "w\<lparr>s3log := s3log w @ [(?rq, Some obj)]\<rparr>"
  from assms(3) fid have pub: "createOnPublicObject env (f_id form @ ''.json'') ''metadata'' w
      = (Inr (createUrl obj), ?w1)"
    by (simp add: createOnPublicObject_def s3_call_def Let_def)
  let ?g = "\<lambda>f. f\<lparr>f_formMetadataUrl := Some (url_origin u @ url_pathname u)\<rparr>"
  from update_first_Some [OF f, of ?g] obtain k where
    "update_first formId ?g (forms w) = Some (?g form, (forms w)[k := ?g form])"
    by blast
  then have up: "form_update formId ?g ?w1
      = (Inr (?g form), ?w1\<lparr>forms := (forms w)[k := ?g form]\<rparr>)"
    by (simp add: form_update_def)
  from assms(1,2,4) pub up show ?thesis
    by (simp add: createFormMetadata_def Let_def)
qed

text \<open>The example, evaluated.\<close>

lemmas meta_defs = createFormMetadata_def findByFormId_def findUserByUserId_def
  listDocumentsFromForm_def createOnPublicObject_def s3_call_def form_update_def
  world_agg_def alice_def bob_def form0_def doc0_def env0_def Let_def truthy_def
  metadata_example_def

lemma createFormMetadata_example:
  "createFormMetadata env0 ''id'' world_agg =
    (Inr metadata_example,
     world_agg\<lparr>forms := [(form0 ''u1'' None)\<lparr>f_formMetadataUrl := Some ''https://s3.test/id.json''\<rparr>,
                         (form0 ''u2'' None)\<lparr>f_id := ''id2''\<rparr>],
               s3log := [(\<lparr>rq_fileName = ''id.json'', rq_residueType = None,
                           rq_basePath = Some ''metadata'', rq_bucket = Some ''detrash-public''\<rparr>,
                          Some \<lparr>fileName = ''key-id.json'',
                                 createUrl = ''https://s3.test/id.json?sig=1''\<rparr>)]\<rparr>)"
  by (simp add: meta_defs)

lemma metadata_example_preconditions:
  "findByFormId ''id'' world_agg = Inr (form0 ''u1'' None)"
  "findUserByUserId (f_userId (form0 ''u1'' None)) world_agg = Inr alice"
  "createPreSignedObjectUrl env0 (length (s3log world_agg))
      \<lparr>rq_fileName = ''id'' @ ''.json'', rq_residueType = None,
        rq_basePath = Some ''metadata'', rq_bucket = Some ''detrash-public''\<rparr>
     = Some (s3obj0 ''id.json'')"
  "URL_new env0 (createUrl (s3obj0 ''id.json''))
     = Some \<lparr>url_origin = ''https://s3.test'', url_pathname = ''/id.json''\<rparr>"
  by (simp_all add: findByFormId_def findUserByUserId_def world_agg_def form0_def alice_def
        env0_def s3obj0_def)

section \<open>Attributes of the published metadata (C8)\<close>

text \<open>
  Claim C8. The metadata object that \<open>createFormMetadata\<close> serialises has an attribute
  list of length 2 + the number of documents of the form: the originating wallet address
  (\<open>0x0\<close> when the form has none), then the audit status (\<open>Verified\<close> when the
  authorization flag is set, \<open>Not Verified\<close> otherwise), then one attribute per document
  with the title of its category and its amount as a string. And the object is produced:
  the operation returns for every form whose owner is known, when the gateway answers the
  call for the metadata file with a URL that parses.
\<close>

theorem createFormMetadata_attributes:
  "(\<forall>res w'. createFormMetadata env formId w = (Inr res, w') \<longrightarrow>
      (\<exists>form. findByFormId formId w = Inr form \<and>
         m_attributes (body res) =
            [\<lparr>trait_type = ''Originating wallet'',
              trait_value = (case f_walletAddress form of
                               None \<Rightarrow> ''0x0''
                             | Some a \<Rightarrow> if a = [] then ''0x0'' else a)\<rparr>,
             \<lparr>trait_type = ''Audit'',
              trait_value = (if f_isFormAuthorizedByAdmin form
                             then ''Verified'' else ''Not Verified'')\<rparr>]
            @ map (\<lambda>d. \<lparr>trait_type = getResidueTitle env (d_residueType d) @ '' kgs'',
                         trait_value = String_number env (d_amount d)\<rparr>)
                (filter (\<lambda>d. d_formId d = formId) (documents w)) \<and>
         length (m_attributes (body res))
            = 2 + length (filter (\<lambda>d. d_formId d = formId) (documents w))))
   \<and> (\<forall>form user obj u.
         findByFormId formId w = Inr form \<longrightarrow>
         findUserByUserId (f_userId form) w = Inr user \<longrightarrow>
         createPreSignedObjectUrl env (length (s3log w))
            \<lparr>rq_fileName = formId @ ''.json'', rq_residueType = None,
              rq_basePath = Some ''metadata'', rq_bucket = Some ''detrash-public''\<rparr> = Some obj \<longrightarrow>
         URL_new env (createUrl obj) = Some u \<longrightarrow>
         (\<exists>res w'. createFormMetadata env formId w = (Inr res, w')))"
proof (rule conjI)
  show "\<forall>res w'. createFormMetadata env formId w = (Inr res, w') \<longrightarrow>
      (\<exists>form. findByFormId formId w = Inr form \<and>
         m_attributes (body res) =
            [\<lparr>trait_type = ''Originating wallet'',
              trait_value = (case f_walletAddress form of
                               None \<Rightarrow> ''0x0''
                             | Some a \<Rightarrow> if a = [] then ''0x0'' else a)\<rparr>,
             \<lparr>trait_type = ''Audit'',
              trait_value = (if f_isFormAuthorizedByAdmin form
                             then ''Verified'' else ''Not Verified'')\<rparr>]
            @ map (\<lambda>d. \<lparr>trait_type = getResidueTitle env (d_residueType d) @ '' kgs'',
                         trait_value = String_number env (d_amount d)\<rparr>)
                (filter (\<lambda>d. d_formId d = formId) (documents w)) \<and>
         length (m_attributes (body res))
            = 2 + length (filter (\<lambda>d. d_formId d = formId) (documents w)))"
  proof (intro allI impI)
    fix res w'
    assume "createFormMetadata env formId w = (Inr res, w')"
    then show "\<exists>form. findByFormId formId w = Inr form \<and>
         m_attributes (body res) =
            [\<lparr>trait_type = ''Originating wallet'',
              trait_value = (case f_walletAddress form of
                               None \<Rightarrow> ''0x0''
                             | Some a \<Rightarrow> if a = [] then ''0x0'' else a)\<rparr>,
             \<lparr>trait_type = ''Audit'',
              trait_value = (if f_isFormAuthorizedByAdmin form
                             then ''Verified'' else ''Not Verified'')\<rparr>]
            @ map (\<lambda>d. \<lparr>trait_type = getResidueTitle env (d_residueType d) @ '' kgs'',
                         trait_value = String_number env (d_amount d)\<rparr>)
                (filter (\<lambda>d. d_formId d = formId) (documents w)) \<and>
         length (m_attributes (body res))
            = 2 + length (filter (\<lambda>d. d_formId d = formId) (documents w))"
    proof (cases rule: createFormMetadata_Inr)
      case (run form user obj u k)
      have w: "(if truthy (f_walletAddress form) then the (f_walletAddress form) else ''0x0'')
           = (case f_walletAddress form of None \<Rightarrow> ''0x0''
              | Some a \<Rightarrow> if a = [] then ''0x0'' else a)"
        by (cases "f_walletAddress form") (simp_all add: truthy_def)
      from run(1) show ?thesis
        by (intro exI [of _ form]) (simp add: run(10) w listDocumentsFromForm_def)
    qed
  qed
  show "(\<forall>form user obj u.
         findByFormId formId w = Inr form \<longrightarrow>
         findUserByUserId (f_userId form) w = Inr user \<longrightarrow>
         createPreSignedObjectUrl env (length (s3log w))
            \<lparr>rq_fileName = formId @ ''.json'', rq_residueType = None,
              rq_basePath = Some ''metadata'', rq_bucket = Some ''detrash-public''\<rparr> = Some obj \<longrightarrow>
         URL_new env (createUrl obj) = Some u \<longrightarrow>
         (\<exists>res w'. createFormMetadata env formId w = (Inr res, w')))"
  proof (intro allI impI)
    fix form user obj u
    assume "findByFormId formId w = Inr form"
      and "findUserByUserId (f_userId form) w = Inr user"
      and "createPreSignedObjectUrl env (length (s3log w))
            \<lparr>rq_fileName = formId @ ''.json'', rq_residueType = None,
              rq_basePath = Some ''metadata'', rq_bucket = Some ''detrash-public''\<rparr> = Some obj"
      and "URL_new env (createUrl obj) = Some u"
    then show "\<exists>res w'. createFormMetadata env formId w = (Inr res, w')"
      by (rule createFormMetadata_returns)
  qed
qed

theorem createFormMetadata_attributes_witness:
  "\<exists>res w'.
      createFormMetadata env0 ''id'' world_agg = (Inr res, w') \<and>
      length (m_attributes (body res)) = 4 \<and>
      m_attributes (body res) =
        [\<lparr>trait_type = ''Originating wallet'', trait_value = ''0x0''\<rparr>,
         \<lparr>trait_type = ''Audit'', trait_value = ''Not Verified''\<rparr>,
         \<lparr>trait_type = ''Glass kgs'', trait_value = ''10''\<rparr>,
         \<lparr>trait_type = ''Paper kgs'', trait_value = ''2.5''\<rparr>]"
proof -
  note th = createFormMetadata_attributes [of env0 "''id''" world_agg]
  from th [THEN conjunct2, rule_format, OF metadata_example_preconditions]
  obtain res w' where run: "createFormMetadata env0 ''id'' world_agg = (Inr res, w')"
    by blast
  have d: "filter (\<lambda>d. d_formId d = ''id'') (documents world_agg)
             = [(doc0 1 GLASS)\<lparr>d_amount := 10\<rparr>, (doc0 2 PAPER)\<lparr>d_amount := 5 / 2\<rparr>]"
    by (simp add: world_agg_def doc0_def)
  from th [THEN conjunct1, rule_format, OF run]
  obtain form where
    f: "findByFormId ''id'' world_agg = Inr form"
    and a: "m_attributes (body res) =
        [\<lparr>trait_type = ''Originating wallet'',
          trait_value = (case f_walletAddress form of
                           None \<Rightarrow> ''0x0''
                         | Some a \<Rightarrow> if a = [] then ''0x0'' else a)\<rparr>,
         \<lparr>trait_type = ''Audit'',
          trait_value = (if f_isFormAuthorizedByAdmin form
                         then ''Verified'' else ''Not Verified'')\<rparr>]
        @ map (\<lambda>d. \<lparr>trait_type = getResidueTitle env0 (d_residueType d) @ '' kgs'',
                     trait_value = String_number env0 (d_amount d)\<rparr>)
            (filter (\<lambda>d. d_formId d = ''id'') (documents world_agg))"
    and l: "length (m_attributes (body res))
        = 2 + length (filter (\<lambda>d. d_formId d = ''id'') (documents world_agg))"
    by (elim exE conjE) (rule that; assumption)
  from f metadata_example_preconditions(1) have form: "form = form0 ''u1'' None" by simp
  from l have l4: "length (m_attributes (body res)) = 4" by (simp add: d)
  from a have a4: "m_attributes (body res) =
        [\<lparr>trait_type = ''Originating wallet'', trait_value = ''0x0''\<rparr>,
         \<lparr>trait_type = ''Audit'', trait_value = ''Not Verified''\<rparr>,
         \<lparr>trait_type = ''Glass kgs'', trait_value = ''10''\<rparr>,
         \<lparr>trait_type = ''Paper kgs'', trait_value = ''2.5''\<rparr>]"
    by (simp add: d form form0_def doc0_def env0_def)
  from run l4 a4 show ?thesis by blast
qed

section \<open>Stored and returned metadata URL (C10)\<close>

text \<open>
  Claim C10. \<open>createFormMetadata\<close> stores on the form the origin followed by the pathname
  that the parser gives for the upload URL the storage gateway returned, and it returns
  the gateway's URL unchanged. With a parser that keeps the query out of origin and
  pathname, as the standard's does, the stored value differs from the returned URL
  whenever that one carries a query. And the operation returns for every form whose owner
  is known, when the gateway answers the call for the metadata file with a URL that
  parses.
\<close>

theorem createFormMetadata_stored_url:
  "(\<forall>res w'. createFormMetadata env formId w = (Inr res, w') \<longrightarrow>
      (\<exists>obj u stored.
         last (s3log w') =
           (\<lparr>rq_fileName = formId @ ''.json'', rq_residueType = None,
             rq_basePath = Some ''metadata'', rq_bucket = Some ''detrash-public''\<rparr>, Some obj) \<and>
         createMetadataUrl res = createUrl obj \<and>
         URL_new env (createUrl obj) = Some u \<and>
         findByFormId formId w' = Inr stored \<and>
         f_formMetadataUrl stored = Some (url_origin u @ url_pathname u) \<and>
         (URL_without_query env \<longrightarrow> CHR ''?'' \<in> set (createMetadataUrl res) \<longrightarrow>
            f_formMetadataUrl stored \<noteq> Some (createMetadataUrl res))))
   \<and> (\<forall>form user obj u.
         findByFormId formId w = Inr form \<longrightarrow>
         findUserByUserId (f_userId form) w = Inr user \<longrightarrow>
         createPreSignedObjectUrl env (length (s3log w))
            \<lparr>rq_fileName = formId @ ''.json'', rq_residueType = None,
              rq_basePath = Some ''metadata'', rq_bucket = Some ''detrash-public''\<rparr> = Some obj \<longrightarrow>
         URL_new env (createUrl obj) = Some u \<longrightarrow>
         (\<exists>res w'. createFormMetadata env formId w = (Inr res, w')))"
proof (rule conjI)
  show "\<forall>res w'. createFormMetadata env formId w = (Inr res, w') \<longrightarrow>
      (\<exists>obj u stored.
         last (s3log w') =
           (\<lparr>rq_fileName = formId @ ''.json'', rq_residueType = None,
             rq_basePath = Some ''metadata'', rq_bucket = Some ''detrash-public''\<rparr>, Some obj) \<and>
         createMetadataUrl res = createUrl obj \<and>
         URL_new env (createUrl obj) = Some u \<and>
         findByFormId formId w' = Inr stored \<and>
         f_formMetadataUrl stored = Some (url_origin u @ url_pathname u) \<and>
         (URL_without_query env \<longrightarrow> CHR ''?'' \<in> set (createMetadataUrl res) \<longrightarrow>
            f_formMetadataUrl stored \<noteq> Some (createMetadataUrl res)))"
  proof (intro allI impI)
    fix res w'
    let ?rq = "\<lparr>rq_fileName = formId @ ''.json'', rq_residueType = None,
             rq_basePath = Some ''metadata'', rq_bucket = Some ''detrash-public''\<rparr>"
    assume "createFormMetadata env formId w = (Inr res, w')"
    then show "\<exists>obj u stored.
         last (s3log w') =
           (\<lparr>rq_fileName = formId @ ''.json'', rq_residueType = None,
             rq_basePath = Some ''metadata'', rq_bucket = Some ''detrash-public''\<rparr>, Some obj) \<and>
         createMetadataUrl res = createUrl obj \<and>
         URL_new env (createUrl obj) = Some u \<and>
         findByFormId formId w' = Inr stored \<and>
         f_formMetadataUrl stored = Some (url_origin u @ url_pathname u) \<and>
         (URL_without_query env \<longrightarrow> CHR ''?'' \<in> set (createMetadataUrl res) \<longrightarrow>
            f_formMetadataUrl stored \<noteq> Some (createMetadataUrl res))"
    proof (cases rule: createFormMetadata_Inr)
      case (run form user obj u k)
      let ?stored = "form\<lparr>f_formMetadataUrl := Some (url_origin u @ url_pathname u)\<rparr>"
      have "find (\<lambda>f. f_id f = formId) ((forms w)[k := ?stored]) = Some ?stored"
        by (rule find_after_update) (use run(2,6,8) in simp_all)
      then have st: "findByFormId formId w' = Inr ?stored"
        by (simp add: findByFormId_def run(9))
      have lg: "last (s3log w') = (?rq, Some obj)" by (simp add: run(9))
      have r: "createMetadataUrl res = createUrl obj" by (simp add: run(10))
      have su: "f_formMetadataUrl ?stored = Some (url_origin u @ url_pathname u)" by simp
      have ne: "URL_without_query env \<longrightarrow> CHR ''?'' \<in> set (createMetadataUrl res) \<longrightarrow>
                  f_formMetadataUrl ?stored \<noteq> Some (createMetadataUrl res)"
      proof (intro impI)
        assume "URL_without_query env" and q: "CHR ''?'' \<in> set (createMetadataUrl res)"
        with run(5) have "CHR ''?'' \<notin> set (url_origin u)" "CHR ''?'' \<notin> set (url_pathname u)"
          unfolding URL_without_query_def by blast+
        then have "CHR ''?'' \<notin> set (url_origin u @ url_pathname u)" by simp
        with q have "url_origin u @ url_pathname u \<noteq> createMetadataUrl res" by metis
        then show "f_formMetadataUrl ?stored \<noteq> Some (createMetadataUrl res)" by simp
      qed
      show ?thesis
        apply (rule exI [of _ obj], rule exI [of _ u], rule exI [of _ ?stored])
        apply (intro conjI)
             apply (rule lg)
            apply (rule r)
           apply (rule run(5))
          apply (rule st)
         apply (rule su)
        apply (rule ne)
        done
    qed
  qed
  show "(\<forall>form user obj u.
         findByFormId formId w = Inr form \<longrightarrow>
         findUserByUserId (f_userId form) w = Inr user \<longrightarrow>
         createPreSignedObjectUrl env (length (s3log w))
            \<lparr>rq_fileName = formId @ ''.json'', rq_residueType = None,
              rq_basePath = Some ''metadata'', rq_bucket = Some ''detrash-public''\<rparr> = Some obj \<longrightarrow>
         URL_new env (createUrl obj) = Some u \<longrightarrow>
         (\<exists>res w'. createFormMetadata env formId w = (Inr res, w')))"
  proof (intro allI impI)
    fix form user obj u
    assume "findByFormId formId w = Inr form"
      and "findUserByUserId (f_userId form) w = Inr user"
      and "createPreSignedObjectUrl env (length (s3log w))
            \<lparr>rq_fileName = formId @ ''.json'', rq_residueType = None,
              rq_basePath = Some ''metadata'', rq_bucket = Some ''detrash-public''\<rparr> = Some obj"
      and "URL_new env (createUrl obj) = Some u"
    then show "\<exists>res w'. createFormMetadata env formId w = (Inr res, w')"
      by (rule createFormMetadata_returns)
  qed
qed

theorem createFormMetadata_stored_url_witness:
  "\<exists>res w' stored.
     createFormMetadata env0 ''id'' world_agg = (Inr res, w') \<and>
     createMetadataUrl res = ''https://s3.test/id.json?sig=1'' \<and>
     findByFormId ''id'' w' = Inr stored \<and>
     f_formMetadataUrl stored = Some ''https://s3.test/id.json'' \<and>
     f_formMetadataUrl stored \<noteq> Some (createMetadataUrl res)"
proof -
  note th = createFormMetadata_stored_url [of env0 "''id''" world_agg]
  from th [THEN conjunct2, rule_format, OF metadata_example_preconditions]
  obtain res w' where run: "createFormMetadata env0 ''id'' world_agg = (Inr res, w')"
    by blast
  have c: "URL_without_query env0"
    by (simp add: URL_without_query_def env0_def)
  from th [THEN conjunct1, rule_format, OF run]
  obtain obj u stored where
    s: "last (s3log w') =
       (\<lparr>rq_fileName = ''id'' @ ''.json'', rq_residueType = None,
         rq_basePath = Some ''metadata'', rq_bucket = Some ''detrash-public''\<rparr>, Some obj)"
     "createMetadataUrl res = createUrl obj"
     "URL_new env0 (createUrl obj) = Some u"
     "findByFormId ''id'' w' = Inr stored"
     "f_formMetadataUrl stored = Some (url_origin u @ url_pathname u)"
     "URL_without_query env0 \<longrightarrow> CHR ''?'' \<in> set (createMetadataUrl res) \<longrightarrow>
        f_formMetadataUrl stored \<noteq> Some (createMetadataUrl res)"
    by (elim exE conjE) (rule that; assumption)
  from run createFormMetadata_example have "res = metadata_example" by auto
  then have m: "createMetadataUrl res = ''https://s3.test/id.json?sig=1''"
    by (simp add: metadata_example_def)
  with s(2) have "createUrl obj = ''https://s3.test/id.json?sig=1''" by simp
  with s(3) have "u = \<lparr>url_origin = ''https://s3.test'', url_pathname = ''/id.json''\<rparr>"
    by (auto simp: env0_def)
  with s(5) have st: "f_formMetadataUrl stored = Some ''https://s3.test/id.json''" by simp
  have q: "CHR ''?'' \<in> set (createMetadataUrl res)" by (simp add: m)
  from s(6) c q have ne: "f_formMetadataUrl stored \<noteq> Some (createMetadataUrl res)" by blast
  show ?thesis
    apply (rule exI [of _ res], rule exI [of _ w'], rule exI [of _ stored])
    apply (intro conjI)
        apply (rule run)
       apply (rule m)
      apply (rule s(4))
     apply (rule st)
    apply (rule ne)
    done
qed

end
